theory Spec2Isabelle
  imports Main "HOL-Library.Sublist"
begin

section \<open>Python strings\<close>

text \<open>
  A Python \<open>str\<close> is a \<^typ>\<open>string\<close>; every \<^typ>\<open>char\<close> stands for one code point, so the
  model covers the code points below 256. \<open>s.startswith(p)\<close> is \<^term>\<open>prefix p s\<close>,
  \<open>s.endswith(p)\<close> is \<^term>\<open>suffix p s\<close> and \<open>p in s\<close> is \<^term>\<open>sublist p s\<close>.
\<close>

definition isspace :: "char \<Rightarrow> bool" where
  "isspace c \<longleftrightarrow>
     c \<in> set [CHR 0x09, CHR 0x0A, CHR 0x0B, CHR 0x0C, CHR 0x0D, CHR 0x1C, CHR 0x1D,
              CHR 0x1E, CHR 0x1F, CHR 0x20, CHR 0x85, CHR 0xA0]"

text \<open>\<open>s.strip()\<close>\<close>

definition strip :: "string \<Rightarrow> string" where
  "strip s = rev (dropWhile isspace (rev (dropWhile isspace s)))"

text \<open>\<open>s.split(c, 1)\<close> for a string that contains \<open>c\<close>: the text before the first \<open>c\<close> and
  the text after it.\<close>

definition split1 :: "char \<Rightarrow> string \<Rightarrow> string \<times> string" where
  "split1 c s = (takeWhile (\<lambda>x. x \<noteq> c) s, tl (dropWhile (\<lambda>x. x \<noteq> c) s))"

text \<open>\<open>s[1:-1]\<close>, which is empty for a string of length one.\<close>

definition slice_1_m1 :: "string \<Rightarrow> string" where
  "slice_1_m1 s = butlast (tl s)"

text \<open>\<open>sep.join(xs)\<close>\<close>

fun join :: "string \<Rightarrow> string list \<Rightarrow> string" where
  "join sep [] = []"
| "join sep [x] = x"
| "join sep (x # y # ys) = x @ sep @ join sep (y # ys)"

section \<open>Log output\<close>

datatype level = INFO | PASS | WARN | ERROR

type_synonym log_line = "level \<times> string"

section \<open>ConfigResolver: \<open>load_env_file\<close> and \<open>get_env_value\<close>\<close>

text \<open>
  The configuration file as the program meets it: absent (\<open>os.path.exists\<close> is false),
  present but \<open>open\<close> raises, or opened. An opened file is what its line iterator does:
  it yields a line, or it raises (an I/O or decoding error) and the iteration is over.
\<close>

datatype file_read = Yield string | Raise string

datatype env_file = Missing | OpenFails string | Opened "file_read list"

text \<open>The body of the \<open>for line in f\<close> loop, on the dictionary \<open>env_vars\<close>.\<close>

definition parse_line :: "string \<Rightarrow> (string \<rightharpoonup> string) \<Rightarrow> (string \<rightharpoonup> string)" where
  "parse_line raw env_vars =
     (let line = strip raw in
      if line = [] \<or> prefix ''#'' line then env_vars
      else if sublist ''='' line then
        (let (key, val) = split1 CHR ''='' line;
             key = strip key;
             val = strip val;
             val = (if prefix [CHR 0x22] val \<and> suffix [CHR 0x22] val then slice_1_m1 val
                    else if prefix [CHR 0x27] val \<and> suffix [CHR 0x27] val then slice_1_m1 val
                    else val)
         in env_vars(key \<mapsto> val))
      else env_vars)"

text \<open>The loop inside the \<open>try\<close>: \<open>Inl e\<close> is the exception \<open>e\<close> leaving the loop.\<close>

fun env_loop :: "file_read list \<Rightarrow> (string \<rightharpoonup> string) \<Rightarrow> string + (string \<rightharpoonup> string)" where
  "env_loop [] env_vars = Inr env_vars"
| "env_loop (Raise e # rest) env_vars = Inl e"
| "env_loop (Yield line # rest) env_vars = env_loop rest (parse_line line env_vars)"

definition load_env_file :: "env_file \<Rightarrow> (string \<rightharpoonup> string) \<times> log_line list" where
  "load_env_file f =
     (case f of
        Missing \<Rightarrow> (Map.empty, [])
      | OpenFails e \<Rightarrow> (Map.empty, [(ERROR, ''Failed to parse .env file: '' @ e)])
      | Opened items \<Rightarrow>
          (case env_loop items Map.empty of
             Inl e \<Rightarrow> (Map.empty, [(ERROR, ''Failed to parse .env file: '' @ e)])
           | Inr env_vars \<Rightarrow> (env_vars, [])))"

text \<open>\<open>os.environ.get(key, env_vars.get(key, ''))\<close>, with \<open>os.environ\<close> as a parameter.\<close>

definition get_env_value :: "(string \<rightharpoonup> string) \<Rightarrow> string \<Rightarrow> (string \<rightharpoonup> string) \<Rightarrow> string" where
  "get_env_value environ key env_vars =
     (case environ key of
        Some v \<Rightarrow> v
      | None \<Rightarrow> (case env_vars key of Some v \<Rightarrow> v | None \<Rightarrow> ''''))"

section \<open>Parsed JSON and the Python operations on it\<close>

text \<open>
  What \<open>json.load\<close> returns. A \<open>dict\<close> is the list of its items in insertion order, read
  with \<^const>\<open>map_of\<close>; a \<open>float\<close> is mantissa and binary exponent (the program only
  asks whether it is zero); \<open>None\<close> is \<open>JNull\<close>.
\<close>

datatype json =
    JNull
  | JBool bool
  | JInt int
  | JFloat int int
  | JStr string
  | JArr "json list"
  | JObj "(string \<times> json) list"

datatype py_exn = AttributeError string string | TypeError string

fun type_name :: "json \<Rightarrow> string" where
  "type_name JNull = ''NoneType''"
| "type_name (JBool b) = ''bool''"
| "type_name (JInt n) = ''int''"
| "type_name (JFloat m e) = ''float''"
| "type_name (JStr s) = ''str''"
| "type_name (JArr xs) = ''list''"
| "type_name (JObj kvs) = ''dict''"

text \<open>A text between single quotes, as in \<open>f"'{x}'"\<close>.\<close>

definition squote :: "string \<Rightarrow> string" where
  "squote s = [CHR 0x27] @ s @ [CHR 0x27]"

text \<open>\<open>str(e)\<close> of an exception.\<close>

fun exn_str :: "py_exn \<Rightarrow> string" where
  "exn_str (AttributeError t a) = squote t @ '' object has no attribute '' @ squote a"
| "exn_str (TypeError m) = m"

text \<open>Truth value of an object, as \<open>not x\<close> and \<open>if x\<close> test it.\<close>

fun truthy :: "json \<Rightarrow> bool" where
  "truthy JNull = False"
| "truthy (JBool b) = b"
| "truthy (JInt n) = (n \<noteq> 0)"
| "truthy (JFloat m e) = (m \<noteq> 0)"
| "truthy (JStr s) = (s \<noteq> [])"
| "truthy (JArr xs) = (xs \<noteq> [])"
| "truthy (JObj kvs) = (kvs \<noteq> [])"

text \<open>\<open>x.get(key, default)\<close>: only a \<open>dict\<close> has the method.\<close>

fun dict_get :: "json \<Rightarrow> string \<Rightarrow> json \<Rightarrow> py_exn + json" where
  "dict_get (JObj kvs) key dflt = Inr (case map_of kvs key of Some v \<Rightarrow> v | None \<Rightarrow> dflt)"
| "dict_get x key dflt = Inl (AttributeError (type_name x) ''get'')"

text \<open>\<open>key in x\<close> for a string \<open>key\<close>: a key of a \<open>dict\<close>, an element of a \<open>list\<close>, a
  substring of a \<open>str\<close>; anything else is not a container.\<close>

fun py_in :: "string \<Rightarrow> json \<Rightarrow> py_exn + bool" where
  "py_in key (JObj kvs) = Inr (key \<in> set (map fst kvs))"
| "py_in key (JArr xs) = Inr (JStr key \<in> set xs)"
| "py_in key (JStr s) = Inr (sublist key s)"
| "py_in key x = Inl (TypeError (''argument of type '' @ squote (type_name x) @ '' is not iterable''))"

text \<open>\<open>for v in x\<close>: the elements of a \<open>list\<close>, the keys of a \<open>dict\<close>, the characters of a
  \<open>str\<close>.\<close>

fun py_iter :: "json \<Rightarrow> py_exn + json list" where
  "py_iter (JArr xs) = Inr xs"
| "py_iter (JObj kvs) = Inr (map (\<lambda>kv. JStr (fst kv)) kvs)"
| "py_iter (JStr s) = Inr (map (\<lambda>c. JStr [c]) s)"
| "py_iter x = Inl (TypeError (squote (type_name x) @ '' object is not iterable''))"

section \<open>CertificateStateInspector: \<open>check_certificates_exist_and_valid\<close>\<close>

text \<open>
  The store file as the program meets it: absent, present but \<open>open\<close> or \<open>json.load\<close>
  raises (with the exception's text), or loaded.
\<close>

datatype acme_file = NoFile | LoadFails string | Loaded json

text \<open>Line 167: \<open>cert.get('domain', {}).get('main', '')\<close>.\<close>

definition main_label :: "json \<Rightarrow> py_exn + json" where
  "main_label cert =
     (case dict_get cert ''domain'' (JObj []) of
        Inl e \<Rightarrow> Inl e
      | Inr d \<Rightarrow> dict_get d ''main'' (JStr ''''))"

text \<open>
  The inner loop \<open>for cert in certificates\<close> for one requested domain, on the variables
  \<open>found\<close>, \<open>valid\<close> and \<open>messages\<close>; a match ends the loop (\<open>break\<close>).
\<close>

fun cert_loop ::
  "string \<Rightarrow> json list \<Rightarrow> bool \<times> bool \<times> string list \<Rightarrow> py_exn + bool \<times> bool \<times> string list" where
  "cert_loop domain [] st = Inr st"
| "cert_loop domain (cert # certs) (found, valid, messages) =
     (case main_label cert of
        Inl e \<Rightarrow> Inl e
      | Inr cert_domain \<Rightarrow>
          if cert_domain = JStr domain \<or> cert_domain = JStr (''*.'' @ domain)
          then Inr (True, True, messages @ [''Certificate found for '' @ domain])
          else cert_loop domain certs (found, valid, messages))"

text \<open>The outer loop \<open>for domain in domains\<close>, on \<open>all_valid\<close> and \<open>messages\<close>.\<close>

fun domain_loop ::
  "json \<Rightarrow> string list \<Rightarrow> bool \<times> string list \<Rightarrow> py_exn + bool \<times> string list" where
  "domain_loop certificates [] st = Inr st"
| "domain_loop certificates (domain # domains) (all_valid, messages) =
     (case py_iter certificates of
        Inl e \<Rightarrow> Inl e
      | Inr certs \<Rightarrow>
          (case cert_loop domain certs (False, False, messages) of
             Inl e \<Rightarrow> Inl e
           | Inr (found, valid, messages') \<Rightarrow>
               if \<not> found
               then domain_loop certificates domains
                      (False, messages' @ [''No certificate found for '' @ domain])
               else if \<not> valid
               then domain_loop certificates domains
                      (False, messages' @ [''Certificate for '' @ domain @ '' may be expired''])
               else domain_loop certificates domains (all_valid, messages')))"

text \<open>\<open>Inl e\<close> is the exception \<open>e\<close> leaving the function; \<open>Inr\<close> is the returned pair.\<close>

definition check_certificates_exist_and_valid ::
  "string \<Rightarrow> acme_file \<Rightarrow> string list \<Rightarrow> py_exn + bool \<times> string" where
  "check_certificates_exist_and_valid acme_storage_path file domains =
     (case file of
        NoFile \<Rightarrow> Inr (False, ''ACME storage file not found at '' @ acme_storage_path)
      | LoadFails e \<Rightarrow> Inr (False, ''Failed to read ACME storage: '' @ e)
      | Loaded acme_data \<Rightarrow>
          if \<not> truthy acme_data
          then Inr (False, ''No DNS resolver certificates found in ACME storage'')
          else
            (case py_in ''dns'' acme_data of
               Inl e \<Rightarrow> Inl e
             | Inr has_dns \<Rightarrow>
                 if \<not> has_dns
                 then Inr (False, ''No DNS resolver certificates found in ACME storage'')
                 else
                   (case dict_get acme_data ''dns'' (JObj []) of
                      Inl e \<Rightarrow> Inl e
                    | Inr dns_data \<Rightarrow>
                        (case dict_get dns_data ''Certificates'' (JArr []) of
                           Inl e \<Rightarrow> Inl e
                         | Inr certificates \<Rightarrow>
                             if \<not> truthy certificates
                             then Inr (False, ''No certificates found in DNS resolver storage'')
                             else
                               (case domain_loop certificates domains (True, []) of
                                  Inl e \<Rightarrow> Inl e
                                | Inr (all_valid, messages) \<Rightarrow>
                                    Inr (all_valid, join ''; '' messages))))))"

section \<open>CredentialValidator: \<open>validate_cloudflare_credentials\<close>\<close>

definition credential_error_msg :: string where
  "credential_error_msg =
     ''\<newline>Cloudflare API token is required but not found.\<newline>'' @
     ''\<newline>'' @
     ''Please set one of the following environment variables in your .env file:\<newline>'' @
     ''  - CF_DNS_API_TOKEN (preferred for DNS-01 challenges)\<newline>'' @
     ''  - CF_API_TOKEN (legacy option)\<newline>'' @
     ''\<newline>'' @
     ''To create a Cloudflare API token:\<newline>'' @
     ''  1. Log in to your Cloudflare dashboard\<newline>'' @
     ''  2. Go to My Profile > API Tokens\<newline>'' @
     ''  3. Click \"Create Token\"\<newline>'' @
     ''  4. Use the \"Edit zone DNS\" template\<newline>'' @
     ''  5. Set permissions: Zone > DNS > Edit\<newline>'' @
     ''  6. Select the zone(s) for your domain\<newline>'' @
     ''  7. Copy the token and add to .env:\<newline>'' @
     ''     CF_DNS_API_TOKEN=your-token-here\<newline>'' @
     ''\<newline>'' @
     ''For more info: https://go-acme.github.io/lego/dns/cloudflare/\<newline>''"

text \<open>The returned triple \<open>(valid, token_value, error_message)\<close>; \<open>None\<close> is \<open>None\<close>.\<close>

definition validate_cloudflare_credentials ::
  "(string \<rightharpoonup> string) \<Rightarrow> (string \<rightharpoonup> string) \<Rightarrow> bool \<times> string option \<times> string option" where
  "validate_cloudflare_credentials environ env_vars =
     (let cf_token = get_env_value environ ''CF_DNS_API_TOKEN'' env_vars;
          cf_token = (if cf_token = [] then get_env_value environ ''CF_API_TOKEN'' env_vars
                      else cf_token)
      in if cf_token = [] then (False, None, Some (strip credential_error_msg))
         else (True, Some cf_token, None))"

section \<open>ZoneAccessProbe: \<open>test_cloudflare_api_connectivity\<close>\<close>

text \<open>\<open>s.split(c)\<close>: the labels between the occurrences of \<open>c\<close>, never an empty list.\<close>

fun split_on :: "char \<Rightarrow> string \<Rightarrow> string list" where
  "split_on c [] = [[]]"
| "split_on c (x # xs) =
     (if x = c then [] # split_on c xs
      else (case split_on c xs of [] \<Rightarrow> [[x]] | y # ys \<Rightarrow> (x # y) # ys))"

text \<open>Lines 260 to 266: \<open>domain_parts[-2:]\<close> is the last two labels.\<close>

definition base_domain_of :: "string \<Rightarrow> string" where
  "base_domain_of domain =
     (let domain_parts = split_on CHR ''.'' domain
      in if length domain_parts > 2
         then join ''.'' (drop (length domain_parts - 2) domain_parts)
         else domain)"

text \<open>Decimal text of an integer, for \<open>{e.code}\<close>.\<close>

fun str_nat :: "nat \<Rightarrow> string" where
  "str_nat n =
     (if n < 10 then [''0123456789'' ! n]
      else str_nat (n div 10) @ [''0123456789'' ! (n mod 10)])"

definition str_int :: "int \<Rightarrow> string" where
  "str_int i = (if i < 0 then ''-'' @ str_nat (nat (- i)) else str_nat (nat i))"

text \<open>
  What \<open>urlopen\<close>, \<open>read\<close>, \<open>decode\<close> and \<open>json.loads\<close> can raise. An \<open>HTTPError\<close> has its
  code, its reason and what \<open>e.read().decode()\<close> does (the body, or an exception);
  \<open>OtherException\<close> is any exception that is neither, with its text.
\<close>

datatype raised =
    Py py_exn
  | HTTPError int string "raised + string"
  | URLError string
  | OtherException string

fun raised_str :: "raised \<Rightarrow> string" where
  "raised_str (Py e) = exn_str e"
| "raised_str (HTTPError code reason body) = ''HTTP Error '' @ str_int code @ '': '' @ reason"
| "raised_str (URLError reason) = ''<urlopen error '' @ reason @ ''>''"
| "raised_str (OtherException m) = m"

text \<open>
  The provider: the request's URL and \<open>Authorization\<close> header give the parsed response
  body, or the exception raised on the way to it.
\<close>

type_synonym network = "string \<Rightarrow> string \<Rightarrow> raised + json"

text \<open>\<open>f"{v}"\<close>: a string is itself; \<open>fmt\<close> is Python's \<open>str\<close> on every other value.\<close>

definition py_str :: "(json \<Rightarrow> string) \<Rightarrow> json \<Rightarrow> string" where
  "py_str fmt v = (case v of JStr s \<Rightarrow> s | _ \<Rightarrow> fmt v)"

record zone_info =
  info_id :: json
  info_name :: json
  info_status :: json

type_synonym probe_result = "bool \<times> string option \<times> zone_info option"

text \<open>Evaluation of a list comprehension: left to right, the first exception ends it.\<close>

fun collect :: "('a \<Rightarrow> py_exn + 'b) \<Rightarrow> 'a list \<Rightarrow> py_exn + 'b list" where
  "collect f [] = Inr []"
| "collect f (x # xs) =
     (case f x of
        Inl e \<Rightarrow> Inl e
      | Inr y \<Rightarrow> (case collect f xs of Inl e \<Rightarrow> Inl e | Inr ys \<Rightarrow> Inr (y # ys)))"

text \<open>Lines 283 and 333: the texts of the provider's errors.\<close>

definition error_msgs :: "(json \<Rightarrow> string) \<Rightarrow> json \<Rightarrow> py_exn + string list" where
  "error_msgs fmt errors =
     (case py_iter errors of
        Inl x \<Rightarrow> Inl x
      | Inr es \<Rightarrow>
          collect
            (\<lambda>e. case dict_get e ''code'' (JStr ''unknown'') of
                   Inl x \<Rightarrow> Inl x
                 | Inr code \<Rightarrow>
                     (case dict_get e ''message'' (JStr ''unknown error'') of
                        Inl x \<Rightarrow> Inl x
                      | Inr message \<Rightarrow> Inr (py_str fmt code @ '': '' @ py_str fmt message)))
            es)"

text \<open>
  The loop \<open>for zone in zones\<close> (lines 295 to 302) on \<open>accessible_zones\<close>; the result is
  \<open>domain_zone\<close> (\<open>JNull\<close> is \<open>None\<close>) and \<open>accessible_zones\<close>.
\<close>

fun zone_loop :: "string \<Rightarrow> string \<Rightarrow> json list \<Rightarrow> json list \<Rightarrow> py_exn + json \<times> json list" where
  "zone_loop domain base_domain [] accessible_zones = Inr (JNull, accessible_zones)"
| "zone_loop domain base_domain (zone # zones) accessible_zones =
     (case dict_get zone ''name'' (JStr '''') of
        Inl e \<Rightarrow> Inl e
      | Inr zone_name \<Rightarrow>
          if zone_name = JStr domain \<or> zone_name = JStr base_domain
          then Inr (zone, accessible_zones @ [zone_name])
          else zone_loop domain base_domain zones (accessible_zones @ [zone_name]))"

text \<open>Lines 305 to 316.\<close>

definition zone_not_found_msg :: "(json \<Rightarrow> string) \<Rightarrow> string \<Rightarrow> string \<Rightarrow> json list \<Rightarrow> string" where
  "zone_not_found_msg fmt domain base_domain accessible_zones =
     ''Domain '' @ squote domain @ '' (base: '' @ squote base_domain @
       '') not found in accessible zones.\<newline>'' @
     ''\<newline>Zones accessible with this token:\<newline>'' @
     concat (map (\<lambda>zone_name. ''  - '' @ py_str fmt zone_name @ ''\<newline>'') accessible_zones) @
     ''\<newline>Possible causes:\<newline>'' @
     ''  1. Domain is not added to your Cloudflare account\<newline>'' @
     ''  2. API token doesn't have permission for this zone\<newline>'' @
     ''  3. DOMAIN in .env doesn't match the Cloudflare zone name\<newline>'' @
     ''\<newline>To fix:\<newline>'' @
     ''  1. Verify the domain is added to Cloudflare\<newline>'' @
     ''  2. Recreate the API token and include this zone\<newline>'' @
     ''  3. Update DOMAIN in .env to match a zone listed above''"

text \<open>
  Lines 281 to 317, on the parsed response \<open>data\<close> of the list-zones request: an exception
  (\<open>Inl\<close>), a \<open>return\<close> (\<open>Inr (Inl result)\<close>), or the selected \<open>domain_zone\<close> with which the
  function goes on (\<open>Inr (Inr domain_zone)\<close>).
\<close>

definition select_zone ::
  "(json \<Rightarrow> string) \<Rightarrow> string \<Rightarrow> string \<Rightarrow> json \<Rightarrow> py_exn + (probe_result + json)" where
  "select_zone fmt domain base_domain data =
     (case dict_get data ''success'' JNull of
        Inl e \<Rightarrow> Inl e
      | Inr success \<Rightarrow>
          if \<not> truthy success then
            (case dict_get data ''errors'' (JArr []) of
               Inl e \<Rightarrow> Inl e
             | Inr errors \<Rightarrow>
                 (case error_msgs fmt errors of
                    Inl e \<Rightarrow> Inl e
                  | Inr msgs \<Rightarrow>
                      Inr (Inl (False, Some (''API call failed: '' @ join '', '' msgs), None))))
          else
            (case dict_get data ''result'' (JArr []) of
               Inl e \<Rightarrow> Inl e
             | Inr zones \<Rightarrow>
                 if \<not> truthy zones
                 then Inr (Inl (False, Some ''API token has no access to any zones'', None))
                 else
                   (case py_iter zones of
                      Inl e \<Rightarrow> Inl e
                    | Inr zs \<Rightarrow>
                        (case zone_loop domain base_domain zs [] of
                           Inl e \<Rightarrow> Inl e
                         | Inr (domain_zone, accessible_zones) \<Rightarrow>
                             if \<not> truthy domain_zone
                             then Inr (Inl (False,
                                    Some (zone_not_found_msg fmt domain base_domain accessible_zones),
                                    None))
                             else Inr (Inr domain_zone)))))"

text \<open>
  Lines 320 to 349, with the selected zone: the read-permission request and the inner
  \<open>try\<close> with its \<open>HTTPError\<close> handler. The second component lists the URLs requested.
\<close>

definition dns_records_check ::
  "(json \<Rightarrow> string) \<Rightarrow> network \<Rightarrow> string \<Rightarrow> json \<Rightarrow> (raised + probe_result) \<times> string list" where
  "dns_records_check fmt net authorization domain_zone =
     (case dict_get domain_zone ''id'' JNull of
        Inl e \<Rightarrow> (Inl (Py e), [])
      | Inr zone_id \<Rightarrow>
     (case dict_get domain_zone ''name'' JNull of
        Inl e \<Rightarrow> (Inl (Py e), [])
      | Inr zone_name \<Rightarrow>
          (let dns_url = ''https://api.cloudflare.com/client/v4/zones/'' @ py_str fmt zone_id @
                           ''/dns_records?per_page=1'';
               r =
                 (case net dns_url authorization of
                    Inr dns_data \<Rightarrow>
                      (case dict_get dns_data ''success'' JNull of
                         Inl e \<Rightarrow> Inl (Py e)
                       | Inr success \<Rightarrow>
                           if \<not> truthy success then
                             (case dict_get dns_data ''errors'' (JArr []) of
                                Inl e \<Rightarrow> Inl (Py e)
                              | Inr errors \<Rightarrow>
                                  (case error_msgs fmt errors of
                                     Inl e \<Rightarrow> Inl (Py e)
                                   | Inr msgs \<Rightarrow>
                                       Inr (False,
                                         Some (''API token cannot access DNS records for zone '' @
                                               squote (py_str fmt zone_name) @ '': '' @
                                               join '', '' msgs),
                                         None)))
                           else
                             (case dict_get domain_zone ''status'' (JStr ''unknown'') of
                                Inl e \<Rightarrow> Inl (Py e)
                              | Inr status \<Rightarrow>
                                  Inr (True, None,
                                    Some \<lparr>info_id = zone_id, info_name = zone_name,
                                          info_status = status\<rparr>)))
                  | Inl (HTTPError code reason body) \<Rightarrow>
                      if code = 403 then
                        Inr (False,
                          Some (''API token does not have DNS read permission for zone '' @
                                squote (py_str fmt zone_name) @
                                ''. Ensure token has 'Zone > DNS > Edit' permission.''),
                          None)
                      else
                        (case body of
                           Inl x \<Rightarrow> Inl x
                         | Inr error_body \<Rightarrow>
                             Inr (False,
                               Some (''HTTP '' @ str_int code @
                                     '' when checking DNS permissions: '' @
                                     reason @ ''. '' @ take 200 error_body),
                               None))
                  | Inl x \<Rightarrow> Inl x)
           in (r, [dns_url]))))"

text \<open>Lines 269 to 349: the body of the \<open>try\<close> around both requests.\<close>

definition probe_requests ::
  "(json \<Rightarrow> string) \<Rightarrow> network \<Rightarrow> string \<Rightarrow> string \<Rightarrow> string \<Rightarrow>
     (raised + probe_result) \<times> string list" where
  "probe_requests fmt net api_token domain base_domain =
     (let url = ''https://api.cloudflare.com/client/v4/zones?per_page=50'';
          authorization = ''Bearer '' @ api_token
      in case net url authorization of
           Inl x \<Rightarrow> (Inl x, [url])
         | Inr data \<Rightarrow>
             (case select_zone fmt domain base_domain data of
                Inl e \<Rightarrow> (Inl (Py e), [url])
              | Inr (Inl result) \<Rightarrow> (Inr result, [url])
              | Inr (Inr domain_zone) \<Rightarrow>
                  (let (r, requests) = dns_records_check fmt net authorization domain_zone
                   in (r, url # requests))))"

text \<open>Lines 351 to 360: the handlers of that \<open>try\<close>; reading the error body can raise.\<close>

fun request_handlers :: "raised \<Rightarrow> raised + probe_result" where
  "request_handlers (HTTPError code reason body) =
     (if code = 403
      then Inr (False,
             Some (''API token is valid but has insufficient permissions. '' @
                   ''Ensure it has 'Zone > DNS > Edit' permission.''),
             None)
      else (case body of
              Inl x \<Rightarrow> Inl x
            | Inr error_body \<Rightarrow>
                Inr (False,
                  Some (''HTTP '' @ str_int code @ '': '' @ reason @ ''. '' @ take 200 error_body),
                  None)))"
| "request_handlers (URLError reason) = Inr (False, Some (''Network error: '' @ reason), None)"
| "request_handlers e = Inr (False, Some (''Request failed: '' @ raised_str e), None)"

text \<open>
  The function: the returned triple \<open>(success, error_message, zone_info)\<close> and the URLs
  it requested, in order.
\<close>

definition test_cloudflare_api_connectivity ::
  "(json \<Rightarrow> string) \<Rightarrow> network \<Rightarrow> string \<Rightarrow> string \<Rightarrow> probe_result \<times> string list" where
  "test_cloudflare_api_connectivity fmt net api_token domain =
     (let base_domain = base_domain_of domain;
          (r, requests) = probe_requests fmt net api_token domain base_domain;
          result =
            (case r of
               Inr result \<Rightarrow> result
             | Inl e \<Rightarrow>
                 (case request_handlers e of
                    Inr result \<Rightarrow> result
                  | Inl x \<Rightarrow> (False, Some (''Unexpected error: '' @ raised_str x), None)))
      in (result, requests))"

section \<open>DecisionOrchestrator: \<open>main\<close>\<close>

text \<open>
  What a run does, in order: the lines it prints, the component functions it calls and
  the URLs it requests.
\<close>

datatype component = LoadEnvFile | CheckCertificates | ValidateCredentials | TestApiConnectivity

datatype event = Print level string | Invoke component | Request string

text \<open>
  The verdicts of the specification name the exits of \<open>main\<close>. A run ends in
  \<open>sys.exit(code)\<close> or in an exception that nothing catches.
\<close>

datatype verdict =
    Skipped
  | Passed_CertsValid
  | Passed_ApiValidated
  | Failed_ConfigError
  | Failed_MissingCredential
  | Failed_ApiOrZone

datatype outcome = Exit verdict int | Uncaught py_exn

text \<open>
  What a run reads: the process environment, the file at \<open>args.env_file\<close>, the path
  \<open>args.acme_storage\<close> and the file there, the provider, and Python's \<open>str\<close> on values
  that are not strings.
\<close>

record world =
  os_environ :: "string \<rightharpoonup> string"
  args_env_file :: env_file
  args_acme_storage :: string
  acme_storage_file :: acme_file
  provider :: network
  str_of :: "json \<Rightarrow> string"

text \<open>\<open>f"{x}"\<close> for a value that is a string or \<open>None\<close>.\<close>

definition opt_str :: "string option \<Rightarrow> string" where
  "opt_str x = (case x of None \<Rightarrow> ''None'' | Some s \<Rightarrow> s)"

text \<open>Lines 435 to 472, after the events \<open>t\<close>.\<close>

definition validate_and_probe ::
  "world \<Rightarrow> (string \<rightharpoonup> string) \<Rightarrow> string \<Rightarrow> event list \<Rightarrow> event list \<times> outcome" where
  "validate_and_probe w env_vars domain t =
     (let t = t @ [Invoke ValidateCredentials];
          (creds_valid, api_token, cred_error) =
            validate_cloudflare_credentials (os_environ w) env_vars
      in
      if \<not> creds_valid then
        (t @ [Print ERROR ''Cloudflare credentials validation failed'',
              Print ERROR (opt_str cred_error)],
         Exit Failed_MissingCredential 1)
      else
        (let t = t @ [Print PASS ''Cloudflare API token found'',
                      Print INFO ''Testing Cloudflare API connectivity and domain access...'',
                      Invoke TestApiConnectivity];
             ((api_success, api_error, zone_info), requests) =
               test_cloudflare_api_connectivity (str_of w) (provider w) (opt_str api_token) domain;
             t = t @ map Request requests
         in
         if \<not> api_success then
           (t @ [Print ERROR ''Cloudflare API connectivity or domain access check failed'',
                 Print ERROR (opt_str api_error),
                 Print ERROR '''',
                 Print ERROR ''Common issues:'',
                 Print ERROR ''  1. Invalid or expired API token'',
                 Print ERROR ''  2. Token doesn't have 'Zone > DNS > Edit' permissions'',
                 Print ERROR ''  3. Token doesn't have access to the domain's zone'',
                 Print ERROR ''  4. Domain not added to your Cloudflare account'',
                 Print ERROR ''  5. Network connectivity issues'',
                 Print ERROR '''',
                 Print ERROR ''To fix:'',
                 Print ERROR ''  1. Verify your token at: https://dash.cloudflare.com/profile/api-tokens'',
                 Print ERROR ''  2. Ensure the token has 'Zone > DNS > Edit' permissions'',
                 Print ERROR ''  3. Ensure the token includes your domain's zone'',
                 Print ERROR ''  4. Check that DOMAIN in .env matches your Cloudflare zone'',
                 Print ERROR ''  5. Verify network connectivity to api.cloudflare.com'',
                 Print ERROR ''  6. Create a new token if needed and update CF_DNS_API_TOKEN in .env''],
            Exit Failed_ApiOrZone 1)
         else
           (let t = t @ [Print PASS ''Cloudflare API connectivity test successful''] in
            case zone_info of
              None \<Rightarrow> (t, Uncaught (TypeError (squote ''NoneType'' @ '' object is not subscriptable'')))
            | Some zi \<Rightarrow>
                (t @ [Print PASS (''Token has access to zone: '' @ py_str (str_of w) (info_name zi) @
                                  '' (status: '' @ py_str (str_of w) (info_status zi) @ '')''),
                      Print INFO ''Ready to issue certificates via DNS-01 challenge''],
                 Exit Passed_ApiValidated 0))))"

text \<open>\<open>main\<close>, after the arguments are parsed: the events of the run and how it ends.\<close>

definition main :: "world \<Rightarrow> event list \<times> outcome" where
  "main w =
     (let (env_vars, out) = load_env_file (args_env_file w);
          t = Invoke LoadEnvFile # map (\<lambda>(l, m). Print l m) out;
          le_challenge = get_env_value (os_environ w) ''LE_CHALLENGE'' env_vars;
          le_dns_provider = get_env_value (os_environ w) ''LE_DNS_PROVIDER'' env_vars;
          domain = get_env_value (os_environ w) ''DOMAIN'' env_vars;
          subdomain = get_env_value (os_environ w) ''SUBDOMAIN'' env_vars
      in
      if le_challenge \<noteq> ''dns'' then
        (t @ [Print INFO ''LE_CHALLENGE is not 'dns' - skipping Cloudflare DNS check''],
         Exit Skipped 0)
      else if le_dns_provider \<noteq> ''cloudflare'' then
        (t @ [Print INFO (''LE_DNS_PROVIDER is '' @ squote le_dns_provider @
                          '' (not 'cloudflare') - skipping Cloudflare check'')],
         Exit Skipped 0)
      else
        (let t = t @ [Print INFO ''DNS-01 challenge with Cloudflare provider detected''] in
         if domain = [] \<or> domain = ''paste-domain-here'' then
           (t @ [Print ERROR ''DOMAIN is not configured properly in .env'',
                 Print INFO ''Please set DOMAIN to your actual domain name''],
            Exit Failed_ConfigError 1)
         else
           (let domains = [domain] @ (if subdomain \<noteq> [] then [subdomain @ ''.'' @ domain] else []);
                t = t @ [Print INFO (''Checking certificates for domains: '' @ join '', '' domains),
                         Invoke CheckCertificates]
            in
            case check_certificates_exist_and_valid (args_acme_storage w) (acme_storage_file w)
                   domains of
              Inl e \<Rightarrow> (t, Uncaught e)
            | Inr (certs_valid, cert_status) \<Rightarrow>
                if certs_valid then
                  (t @ [Print PASS ''Valid certificates already exist for all domains'',
                        Print INFO ''Skipping Cloudflare credential validation (certificates present)'',
                        Print INFO cert_status],
                   Exit Passed_CertsValid 0)
                else
                  validate_and_probe w env_vars domain
                    (t @ [Print WARN ''Certificates not found or may be expired'',
                          Print INFO cert_status,
                          Print INFO ''Proceeding with Cloudflare credential validation...'']))))"

section \<open>Example inputs\<close>

text \<open>A provider that answers the list-zones request with the zones given, and every
  other request with a bare success.\<close>

definition example_response :: "json list \<Rightarrow> json" where
  "example_response zones = JObj [(''success'', JBool True), (''result'', JArr zones)]"

definition example_provider :: "json list \<Rightarrow> network" where
  "example_provider zones =
     (\<lambda>url authorization.
        if url = ''https://api.cloudflare.com/client/v4/zones?per_page=50''
        then Inr (example_response zones)
        else Inr (JObj [(''success'', JBool True)]))"

definition example_zones :: "json list" where
  "example_zones =
     [JObj [(''id'', JStr ''z1''), (''name'', JStr ''other.com''), (''status'', JStr ''active'')],
      JObj [(''id'', JStr ''z2''), (''name'', JStr ''example.com''), (''status'', JStr ''active'')]]"

text \<open>The store \<open>{"dns": {"Certificates": [...]}}\<close> and the record
  \<open>{"domain": {"main": label}}\<close>.\<close>

definition example_store :: "json list \<Rightarrow> (string \<times> json) list" where
  "example_store certificates = [(''dns'', JObj [(''Certificates'', JArr certificates)])]"

definition example_cert :: "string \<Rightarrow> json" where
  "example_cert label = JObj [(''domain'', JObj [(''main'', JStr label)])]"

text \<open>A run configured by its file for DNS-01 with Cloudflare and the domain
  \<open>example.com\<close>, with the lines given after these three.\<close>

definition example_world :: "string list \<Rightarrow> acme_file \<Rightarrow> network \<Rightarrow> world" where
  "example_world more_lines file net =
     \<lparr>os_environ = Map.empty,
      args_env_file =
        Opened (map Yield ([''LE_CHALLENGE=dns'', ''LE_DNS_PROVIDER=cloudflare'',
                            ''DOMAIN=example.com''] @ more_lines)),
      args_acme_storage = ''acme.json'',
      acme_storage_file = file,
      provider = net,
      str_of = (\<lambda>v. ''?'')\<rparr>"

section \<open>Properties of the configuration parser\<close>

lemma sublist_single: "sublist [c] s \<longleftrightarrow> c \<in> set s"
  by (induction s) (auto simp: sublist_Cons_right prefix_Cons)

lemma set_strip: "set (strip s) \<subseteq> set s"
proof -
  have "set (strip s) \<subseteq> set (dropWhile isspace s)"
    unfolding strip_def using set_dropWhileD by fastforce
  also have "\<dots> \<subseteq> set s"
    using set_dropWhileD by fastforce
  finally show ?thesis .
qed

lemma split1_first: "c \<notin> set k \<Longrightarrow> split1 c (k @ c # v) = (k, v)"
  by (induction k) (auto simp: split1_def)

lemma parse_line_skip: "strip l = [] \<or> prefix ''#'' (strip l) \<Longrightarrow> parse_line l env = env"
  by (auto simp: parse_line_def Let_def)

lemma parse_line_no_eq: "CHR ''='' \<notin> set l \<Longrightarrow> parse_line l env = env"
  using set_strip [of l] by (auto simp: parse_line_def Let_def sublist_single)

lemma parse_line_assign:
  assumes "strip l \<noteq> []" "\<not> prefix ''#'' (strip l)" "strip l = k @ ''='' @ v" "CHR ''='' \<notin> set k"
  shows "parse_line l env =
           env(strip k \<mapsto>
             (if prefix [CHR 0x22] (strip v) \<and> suffix [CHR 0x22] (strip v) then slice_1_m1 (strip v)
              else if prefix [CHR 0x27] (strip v) \<and> suffix [CHR 0x27] (strip v) then slice_1_m1 (strip v)
              else strip v))"
  using assms by (simp add: parse_line_def Let_def sublist_single split1_first)

lemma slice_quoted: "slice_1_m1 ([q] @ mid @ [q]) = mid"
  by (simp add: slice_1_m1_def butlast_append)

lemma env_loop_lines:
  "env_loop (map Yield ls) env = Inr (foldl (\<lambda>e l. parse_line l e) env ls)"
  by (induction ls arbitrary: env) auto

lemma env_loop_raise: "Raise e \<in> set items \<Longrightarrow> \<exists>e'. env_loop items env = Inl e'"
proof (induction items arbitrary: env)
  case Nil
  then show ?case by simp
next
  case (Cons a items)
  then show ?case by (cases a) auto
qed

lemma load_lines: "fst (load_env_file (Opened (map Yield ls))) = foldl (\<lambda>e l. parse_line l e) Map.empty ls"
  by (simp add: load_env_file_def env_loop_lines)

lemma load_skip:
  assumes "parse_line l = (\<lambda>env. env)"
  shows "fst (load_env_file (Opened (map Yield (ls1 @ [l] @ ls2)))) =
         fst (load_env_file (Opened (map Yield (ls1 @ ls2))))"
  unfolding load_lines by (simp add: assms)

lemma parse_line_skipped:
  "strip l = [] \<or> prefix ''#'' (strip l) \<or> CHR ''='' \<notin> set l \<Longrightarrow> parse_line l = (\<lambda>env. env)"
  using parse_line_skip parse_line_no_eq by blast

section \<open>Properties of the credential validator\<close>

lemma get_env_value_other:
  "k \<noteq> key \<Longrightarrow> get_env_value (environ(k := x)) key (env_vars(k := y)) = get_env_value environ key env_vars"
  by (simp add: get_env_value_def split: option.splits)

lemma credential_error_names:
  "sublist ''CF_DNS_API_TOKEN'' (strip credential_error_msg)
   \<and> sublist ''CF_API_TOKEN'' (strip credential_error_msg)"
  unfolding credential_error_msg_def strip_def by code_simp

section \<open>Properties of the zone access probe\<close>

lemma split_on_not_Nil: "split_on c s \<noteq> []"
  by (induction s) (auto split: list.splits)

lemma split_on_no_sep: "c \<notin> set x \<Longrightarrow> split_on c x = [x]"
  by (induction x) auto

lemma split_on_append: "c \<notin> set x \<Longrightarrow> split_on c (x @ c # rest) = x # split_on c rest"
  by (induction x) auto

lemma split_on_join:
  "ls \<noteq> [] \<Longrightarrow> \<forall>l \<in> set ls. c \<notin> set l \<Longrightarrow> split_on c (join [c] ls) = ls"
proof (induction "[c]" ls rule: join.induct)
  case 1
  then show ?case by simp
next
  case (2 x)
  then show ?case by (simp add: split_on_no_sep)
next
  case (3 x y ys)
  then show ?case by (simp add: split_on_append)
qed

lemma join_split_on: "join [c] (split_on c s) = s"
proof (induction s)
  case Nil
  then show ?case by simp
next
  case (Cons x xs)
  show ?case
  proof (cases "split_on c xs")
    case Nil
    then show ?thesis using split_on_not_Nil by blast
  next
    case (Cons y ys)
    with Cons.IH show ?thesis by (cases ys) auto
  qed
qed

lemma split_on_labels: "l \<in> set (split_on c s) \<Longrightarrow> c \<notin> set l"
proof (induction s arbitrary: l)
  case Nil
  then show ?case by simp
next
  case (Cons x xs)
  then show ?case
    by (cases "split_on c xs") (auto split: if_splits)
qed

lemma drop_last_two:
  assumes "2 \<le> length ls"
  shows "drop (length ls - 2) ls = [ls ! (length ls - 2), ls ! (length ls - 1)]"
proof -
  define n where "n = length ls - 2"
  have n: "length ls = Suc (Suc n)" using assms by (simp add: n_def)
  have a: "drop n ls = ls ! n # drop (Suc n) ls"
    by (rule Cons_nth_drop_Suc [symmetric]) (simp add: n)
  have b: "drop (Suc n) ls = ls ! Suc n # drop (Suc (Suc n)) ls"
    by (rule Cons_nth_drop_Suc [symmetric]) (simp add: n)
  have c: "drop (Suc (Suc n)) ls = []"
    by (simp add: n)
  show ?thesis
    unfolding n_def [symmetric] using a b c n by simp
qed

lemma sublist_inside: "sublist p m \<Longrightarrow> sublist p (a @ m @ b)"
proof -
  assume "sublist p m"
  then obtain ps ss where "m = ps @ p @ ss"
    by (auto simp: sublist_def)
  then have "a @ m @ b = (a @ ps) @ p @ (ss @ b)"
    by simp
  then show ?thesis
    by (metis sublist_appendI)
qed

lemma sublist_concat_map: "x \<in> set xs \<Longrightarrow> sublist (f x) (concat (map f xs))"
proof -
  assume "x \<in> set xs"
  then obtain as bs where "xs = as @ x # bs"
    by (meson split_list)
  then have "concat (map f xs) = concat (map f as) @ f x @ concat (map f bs)"
    by simp
  then show ?thesis
    by (metis sublist_appendI)
qed

lemma named_truthy:
  "py_in ''name'' z = Inr True \<Longrightarrow> dict_get z ''name'' dflt = Inr n \<Longrightarrow> truthy z"
  by (cases z) auto

lemma zone_loop_no_match:
  "list_all2 (\<lambda>z n. py_in ''name'' z = Inr True \<and> dict_get z ''name'' (JStr '''') = Inr n) zones names
   \<Longrightarrow> \<forall>n \<in> set names. n \<noteq> JStr d \<and> n \<noteq> JStr b
   \<Longrightarrow> zone_loop d b zones acc = Inr (JNull, acc @ names)"
proof (induction zones arbitrary: names acc)
  case Nil
  then show ?case by simp
next
  case (Cons z zones)
  then obtain n ns where names: "names = n # ns"
    by (cases names) auto
  with Cons.prems have z: "dict_get z ''name'' (JStr '''') = Inr n" "n \<noteq> JStr d" "n \<noteq> JStr b"
    and rest: "list_all2 (\<lambda>z n. py_in ''name'' z = Inr True \<and> dict_get z ''name'' (JStr '''') = Inr n) zones ns"
      "\<forall>n \<in> set ns. n \<noteq> JStr d \<and> n \<noteq> JStr b"
    by auto
  show ?case
    using z Cons.IH [OF rest, of "acc @ [n]"] by (simp add: names)
qed

lemma zone_loop_match:
  "list_all2 (\<lambda>z n. py_in ''name'' z = Inr True \<and> dict_get z ''name'' (JStr '''') = Inr n) zones names
   \<Longrightarrow> i < length zones
   \<Longrightarrow> names ! i = JStr d \<or> names ! i = JStr b
   \<Longrightarrow> \<forall>j < i. names ! j \<noteq> JStr d \<and> names ! j \<noteq> JStr b
   \<Longrightarrow> zone_loop d b zones acc = Inr (zones ! i, acc @ take (Suc i) names)"
proof (induction zones arbitrary: names acc i)
  case Nil
  then show ?case by simp
next
  case (Cons z zones)
  then obtain n ns where names: "names = n # ns"
    by (cases names) auto
  with Cons.prems have z: "dict_get z ''name'' (JStr '''') = Inr n"
    and rest: "list_all2 (\<lambda>z n. py_in ''name'' z = Inr True \<and> dict_get z ''name'' (JStr '''') = Inr n) zones ns"
    by auto
  show ?case
  proof (cases i)
    case 0
    with Cons.prems(3) z show ?thesis by (auto simp: names)
  next
    case (Suc k)
    with Cons.prems names have k: "k < length zones" "ns ! k = JStr d \<or> ns ! k = JStr b"
      "\<forall>j < k. ns ! j \<noteq> JStr d \<and> ns ! j \<noteq> JStr b" and n: "n \<noteq> JStr d" "n \<noteq> JStr b"
      by auto
    show ?thesis
      using z n Cons.IH [OF rest k, of "acc @ [n]"] by (simp add: names Suc)
  qed
qed

lemma select_zone_empty:
  assumes "dict_get data ''success'' JNull = Inr success" "truthy success"
    and "dict_get data ''result'' (JArr []) = Inr (JArr [])"
  shows "select_zone fmt d b data =
           Inr (Inl (False, Some ''API token has no access to any zones'', None))"
  using assms by (simp add: select_zone_def)

lemma select_zone_match:
  assumes "dict_get data ''success'' JNull = Inr success" "truthy success"
    and "dict_get data ''result'' (JArr []) = Inr (JArr zones)"
    and named: "list_all2 (\<lambda>z n. py_in ''name'' z = Inr True \<and> dict_get z ''name'' (JStr '''') = Inr n)
                 zones names"
    and i: "i < length zones" "names ! i = JStr d \<or> names ! i = JStr b"
      "\<forall>j < i. names ! j \<noteq> JStr d \<and> names ! j \<noteq> JStr b"
  shows "select_zone fmt d b data = Inr (Inr (zones ! i))"
proof -
  have ne: "zones \<noteq> []" using i(1) by auto
  have "py_in ''name'' (zones ! i) = Inr True \<and> dict_get (zones ! i) ''name'' (JStr '''') = Inr (names ! i)"
    using named i(1) by (rule list_all2_nthD)
  then have t: "truthy (zones ! i)"
    using named_truthy by blast
  show ?thesis
    using assms(1-3) ne t zone_loop_match [OF named i, of "[]"]
    by (simp add: select_zone_def)
qed

lemma select_zone_no_match:
  assumes "dict_get data ''success'' JNull = Inr success" "truthy success"
    and "dict_get data ''result'' (JArr []) = Inr (JArr zones)"
    and named: "list_all2 (\<lambda>z n. py_in ''name'' z = Inr True \<and> dict_get z ''name'' (JStr '''') = Inr n)
                 zones names"
    and ne: "zones \<noteq> []" and no: "\<forall>n \<in> set names. n \<noteq> JStr d \<and> n \<noteq> JStr b"
  shows "select_zone fmt d b data =
           Inr (Inl (False, Some (zone_not_found_msg fmt d b names), None))"
  using assms(1-3) ne zone_loop_no_match [OF named no, of "[]"]
  by (simp add: select_zone_def)

lemma sublist_skip_left: "sublist p m \<Longrightarrow> sublist p (a @ m)"
  using sublist_inside [of p m a "[]"] by simp

lemma sublist_keep_left: "sublist p m \<Longrightarrow> sublist p (m @ b)"
  using sublist_inside [of p m "[]" b] by simp

lemma zone_not_found_msg_lists:
  assumes "n \<in> set names"
  shows "sublist (''  - '' @ py_str fmt n @ ''\<newline>'') (zone_not_found_msg fmt d b names)"
proof -
  have c: "sublist (''  - '' @ py_str fmt n @ ''\<newline>'')
               (concat (map (\<lambda>zone_name. ''  - '' @ py_str fmt zone_name @ ''\<newline>'') names))"
    using assms
    by (rule sublist_concat_map [where f = "\<lambda>zone_name. ''  - '' @ py_str fmt zone_name @ ''\<newline>''"])
  show ?thesis
    unfolding zone_not_found_msg_def
    apply (rule sublist_skip_left)
    apply (rule sublist_skip_left)
    apply (rule sublist_skip_left)
    apply (rule sublist_skip_left)
    apply (rule sublist_skip_left)
    apply (rule sublist_skip_left)
    apply (rule sublist_keep_left)
    apply (rule c)
    done
qed

lemma probe_of_return:
  assumes "net ''https://api.cloudflare.com/client/v4/zones?per_page=50'' (''Bearer '' @ api_token) = Inr data"
    and "select_zone fmt domain (base_domain_of domain) data = Inr (Inl result)"
  shows "test_cloudflare_api_connectivity fmt net api_token domain =
           (result, [''https://api.cloudflare.com/client/v4/zones?per_page=50''])"
  using assms by (simp add: test_cloudflare_api_connectivity_def probe_requests_def Let_def)

lemma probe_of_zone:
  assumes "net ''https://api.cloudflare.com/client/v4/zones?per_page=50'' (''Bearer '' @ api_token) = Inr data"
    and "select_zone fmt domain (base_domain_of domain) data = Inr (Inr domain_zone)"
  shows "probe_requests fmt net api_token domain (base_domain_of domain) =
           (fst (dns_records_check fmt net (''Bearer '' @ api_token) domain_zone),
            ''https://api.cloudflare.com/client/v4/zones?per_page=50'' #
              snd (dns_records_check fmt net (''Bearer '' @ api_token) domain_zone))"
  using assms by (simp add: probe_requests_def Let_def split: prod.splits)

lemma dns_records_check_requests:
  assumes "dict_get domain_zone ''id'' JNull = Inr zone_id"
  shows "snd (dns_records_check fmt net authorization domain_zone) =
           [''https://api.cloudflare.com/client/v4/zones/'' @ py_str fmt zone_id @
              ''/dns_records?per_page=1'']"
proof -
  obtain kvs where "domain_zone = JObj kvs"
    using assms by (cases domain_zone) auto
  then show ?thesis
    using assms by (simp add: dns_records_check_def Let_def)
qed

section \<open>Properties of the certificate store check\<close>

lemma cert_loop_result:
  "cert_loop d certs (False, False, ms) = Inr (found, valid, ms') \<Longrightarrow>
     found = (\<exists>c \<in> set certs. main_label c = Inr (JStr d) \<or> main_label c = Inr (JStr (''*.'' @ d)))
     \<and> valid = found
     \<and> ms' = ms @ (if found then [''Certificate found for '' @ d] else [])"
proof (induction certs)
  case Nil
  then show ?case by simp
next
  case (Cons c certs)
  show ?case
  proof (cases "main_label c")
    case (Inl e)
    with Cons.prems show ?thesis by simp
  next
    case (Inr m)
    show ?thesis
    proof (cases "m = JStr d \<or> m = JStr (''*.'' @ d)")
      case True
      with Inr Cons.prems show ?thesis by auto
    next
      case False
      with Inr Cons.prems have "cert_loop d certs (False, False, ms) = Inr (found, valid, ms')"
        by simp
      from Cons.IH [OF this] Inr False show ?thesis by auto
    qed
  qed
qed

lemma cert_loop_returns:
  "\<forall>c \<in> set certs. \<exists>m. main_label c = Inr m \<Longrightarrow> \<exists>r. cert_loop d certs (f, v, ms) = Inr r"
proof (induction certs)
  case Nil
  then show ?case by simp
next
  case (Cons c certs)
  then obtain m where "main_label c = Inr m" by auto
  with Cons show ?case by auto
qed

lemma domain_loop_result:
  "domain_loop (JArr certs) ds (av, ms) = Inr (av', ms') \<Longrightarrow>
     av' = (av \<and> (\<forall>d \<in> set ds. \<exists>c \<in> set certs.
                     main_label c = Inr (JStr d) \<or> main_label c = Inr (JStr (''*.'' @ d))))
     \<and> ms' = ms @ map (\<lambda>d. if \<exists>c \<in> set certs.
                                  main_label c = Inr (JStr d) \<or> main_label c = Inr (JStr (''*.'' @ d))
                             then ''Certificate found for '' @ d
                             else ''No certificate found for '' @ d) ds"
proof (induction ds arbitrary: av ms)
  case Nil
  then show ?case by simp
next
  case (Cons d ds)
  show ?case
  proof (cases "cert_loop d certs (False, False, ms)")
    case (Inl e)
    with Cons.prems show ?thesis by simp
  next
    case (Inr r)
    obtain found valid ms1 where r: "r = (found, valid, ms1)"
      by (cases r) auto
    note c = cert_loop_result [OF Inr [unfolded r]]
    show ?thesis
    proof (cases found)
      case True
      with c Inr r Cons.prems have "domain_loop (JArr certs) ds (av, ms1) = Inr (av', ms')"
        by simp
      from Cons.IH [OF this] c True show ?thesis by auto
    next
      case False
      with c Inr r Cons.prems have
        "domain_loop (JArr certs) ds (False, ms1 @ [''No certificate found for '' @ d]) = Inr (av', ms')"
        by simp
      from Cons.IH [OF this] c False show ?thesis by auto
    qed
  qed
qed

lemma domain_loop_returns:
  "\<forall>c \<in> set certs. \<exists>m. main_label c = Inr m \<Longrightarrow> \<exists>r. domain_loop (JArr certs) ds (av, ms) = Inr r"
proof (induction ds arbitrary: av ms)
  case Nil
  then show ?case by simp
next
  case (Cons d ds)
  obtain found valid ms1 where "cert_loop d certs (False, False, ms) = Inr (found, valid, ms1)"
    using cert_loop_returns [OF Cons.prems, of d False False ms] by (metis prod_cases3)
  with Cons.IH [OF Cons.prems] show ?case by simp
qed

lemma check_loaded_store:
  assumes "map_of store ''dns'' = Some (JObj dns)"
    and "map_of dns ''Certificates'' = Some (JArr certificates)"
    and "certificates \<noteq> []"
  shows "check_certificates_exist_and_valid path (Loaded (JObj store)) domains =
           (case domain_loop (JArr certificates) domains (True, []) of
              Inl e \<Rightarrow> Inl e
            | Inr (all_valid, messages) \<Rightarrow> Inr (all_valid, join ''; '' messages))"
proof -
  have "store \<noteq> []" "''dns'' \<in> fst ` set store"
    using assms(1) by (auto dest: map_of_SomeD intro: rev_image_eqI)
  then show ?thesis
    using assms by (simp add: check_certificates_exist_and_valid_def)
qed

lemma main_label_returns:
  "(\<exists>m. main_label c = Inr m) \<longleftrightarrow>
     (\<exists>kvs. c = JObj kvs \<and>
        (map_of kvs ''domain'' = None \<or> (\<exists>d. map_of kvs ''domain'' = Some (JObj d))))"
proof (cases c)
  case (JObj kvs)
  show ?thesis
  proof (cases "map_of kvs ''domain''")
    case None
    with JObj show ?thesis by (simp add: main_label_def)
  next
    case (Some v)
    with JObj show ?thesis by (cases v) (simp_all add: main_label_def)
  qed
qed (simp_all add: main_label_def)

lemma example_world_config:
  "fst (load_env_file (args_env_file (example_world [] file net))) =
     [''LE_CHALLENGE'' \<mapsto> ''dns'', ''LE_DNS_PROVIDER'' \<mapsto> ''cloudflare'',
      ''DOMAIN'' \<mapsto> ''example.com'']"
  "snd (load_env_file (args_env_file (example_world [] file net))) = []"
  by (simp_all add: example_world_def load_env_file_def parse_line_def strip_def isspace_def
      split1_def sublist_single suffix_def Let_def)

lemma main_example_uncaught:
  assumes "check_certificates_exist_and_valid ''acme.json'' file [''example.com''] = Inl e"
  shows "snd (main (example_world [] file net)) = Uncaught e"
proof -
  have sel: "os_environ (example_world [] file net) = Map.empty"
    "args_acme_storage (example_world [] file net) = ''acme.json''"
    "acme_storage_file (example_world [] file net) = file"
    by (simp_all add: example_world_def)
  show ?thesis
    unfolding main_def
    by (simp add: split_def example_world_config sel get_env_value_def assms Let_def)
qed

lemma sublist_after_prefix:
  assumes "c \<notin> set a" and "sublist (c # p) (a @ b)"
  shows "sublist (c # p) b"
proof -
  from assms(2) consider "sublist (c # p) a" | "sublist (c # p) b"
    | xs1 xs2 where "c # p = xs1 @ xs2" "suffix xs1 a" "prefix xs2 b"
    unfolding sublist_append by blast
  then show ?thesis
  proof cases
    case 1
    then have "c \<in> set a" using set_mono_sublist by fastforce
    with assms(1) show ?thesis by simp
  next
    case 2
    then show ?thesis .
  next
    case 3
    show ?thesis
    proof (cases xs1)
      case Nil
      with 3 show ?thesis by auto
    next
      case (Cons y ys)
      with 3(1) have "c \<in> set xs1" by auto
      with 3(2) have "c \<in> set a" using set_mono_suffix by fastforce
      with assms(1) show ?thesis by simp
    qed
  qed
qed

lemma sublist_around_sep:
  assumes "s \<notin> set p" and "sublist p (a @ s # b)"
  shows "sublist p a \<or> sublist p b"
proof -
  from assms(2) consider "sublist p a" | "sublist p (s # b)"
    | xs1 xs2 where "p = xs1 @ xs2" "suffix xs1 a" "prefix xs2 (s # b)"
    unfolding sublist_append by blast
  then show ?thesis
  proof cases
    case 1
    then show ?thesis by simp
  next
    case 2
    then have "prefix p (s # b) \<or> sublist p b"
      by (simp add: sublist_Cons_right)
    then show ?thesis
    proof
      assume "prefix p (s # b)"
      with assms(1) have "p = []" by (cases p) auto
      then show ?thesis by simp
    qed simp
  next
    case 3
    show ?thesis
    proof (cases xs2)
      case Nil
      with 3 have "suffix p a" by simp
      then show ?thesis by (simp add: suffix_imp_sublist)
    next
      case (Cons y ys)
      with 3(3) have "y = s" by simp
      with Cons 3(1) assms(1) show ?thesis by simp
    qed
  qed
qed

lemma sublist_join:
  assumes "s \<notin> set (c # p)" and "c \<notin> set sep"
  shows "sublist (c # p) (join (s # sep) xs) \<Longrightarrow> \<exists>x \<in> set xs. sublist (c # p) x"
proof (induction "s # sep" xs rule: join.induct)
  case 1
  then show ?case by simp
next
  case (2 x)
  then show ?case by simp
next
  case (3 x y ys)
  from 3(2) have "sublist (c # p) (x @ s # (sep @ join (s # sep) (y # ys)))"
    by simp
  then have "sublist (c # p) x \<or> sublist (c # p) (sep @ join (s # sep) (y # ys))"
    using sublist_around_sep [OF assms(1)] by blast
  then show ?case
  proof
    assume "sublist (c # p) x"
    then show ?thesis by simp
  next
    assume "sublist (c # p) (sep @ join (s # sep) (y # ys))"
    then have "sublist (c # p) (join (s # sep) (y # ys))"
      by (rule sublist_after_prefix [OF assms(2)])
    with 3(1) show ?thesis by auto
  qed
qed

lemma domain_loop_iter:
  "py_iter certificates = Inr certs \<Longrightarrow>
     domain_loop certificates ds (av, ms) = domain_loop (JArr certs) ds (av, ms)"
  by (induction ds arbitrary: av ms) (auto split: sum.splits)

lemma domain_loop_messages:
  assumes "domain_loop certificates ds (av, ms) = Inr (av', ms')"
  shows "\<exists>outs. ms' = ms @ outs
           \<and> list_all2 (\<lambda>d m. m = ''Certificate found for '' @ d \<or> m = ''No certificate found for '' @ d)
               ds outs"
proof (cases "py_iter certificates")
  case (Inl e)
  with assms have "ds = []" "ms' = ms"
    by (cases ds; simp)+
  then show ?thesis by simp
next
  case (Inr certs)
  note r = domain_loop_result [OF assms [unfolded domain_loop_iter [OF Inr]]]
  show ?thesis
    by (rule exI [of _ "map (\<lambda>d. if \<exists>c \<in> set certs.
                                  main_label c = Inr (JStr d) \<or> main_label c = Inr (JStr (''*.'' @ d))
                             then ''Certificate found for '' @ d
                             else ''No certificate found for '' @ d) ds"])
      (simp add: r list_all2_conv_all_nth)
qed

lemma expired_in_join:
  "sublist ''may be expired'' (join ''; '' outs) \<Longrightarrow> \<exists>m \<in> set outs. sublist ''may be expired'' m"
proof -
  have a: "CHR '';'' \<notin> set ''may be expired''" by simp
  have b: "CHR ''m'' \<notin> set '' ''" by simp
  show "sublist ''may be expired'' (join ''; '' outs) \<Longrightarrow> \<exists>m \<in> set outs. sublist ''may be expired'' m"
    by (rule sublist_join [OF a b])
qed

lemma expired_in_message:
  assumes "m = ''Certificate found for '' @ d \<or> m = ''No certificate found for '' @ d"
    and "sublist ''may be expired'' m"
  shows "sublist ''may be expired'' d"
proof -
  have a: "CHR ''m'' \<notin> set ''Certificate found for ''" by simp
  have b: "CHR ''m'' \<notin> set ''No certificate found for ''" by simp
  from assms(1) show ?thesis
  proof
    assume "m = ''Certificate found for '' @ d"
    with assms(2) have "sublist ''may be expired'' (''Certificate found for '' @ d)" by (simp only:)
    then show ?thesis by (rule sublist_after_prefix [OF a])
  next
    assume "m = ''No certificate found for '' @ d"
    with assms(2) have "sublist ''may be expired'' (''No certificate found for '' @ d)" by (simp only:)
    then show ?thesis by (rule sublist_after_prefix [OF b])
  qed
qed

lemma expired_in_messages:
  assumes "list_all2 (\<lambda>d m. m = ''Certificate found for '' @ d \<or> m = ''No certificate found for '' @ d)
             ds outs"
    and "sublist ''may be expired'' (join ''; '' outs)"
  shows "\<exists>d \<in> set ds. sublist ''may be expired'' d"
proof -
  obtain m where m: "m \<in> set outs" "sublist ''may be expired'' m"
    using expired_in_join [OF assms(2)] by blast
  then obtain i where i: "i < length outs" "outs ! i = m"
    by (auto simp only: in_set_conv_nth)
  have len: "length ds = length outs"
    using assms(1) by (rule list_all2_lengthD)
  have "outs ! i = ''Certificate found for '' @ ds ! i \<or> outs ! i = ''No certificate found for '' @ ds ! i"
    using assms(1) i(1) len by (simp only: list_all2_conv_all_nth)
  then have "sublist ''may be expired'' (ds ! i)"
    using m(2) i(2) expired_in_message by blast
  moreover have "ds ! i \<in> set ds"
    using i(1) len by simp
  ultimately show ?thesis by blast
qed

lemma no_m_no_expired:
  assumes "CHR ''m'' \<notin> set s"
  shows "\<not> sublist ''may be expired'' s"
proof
  assume "sublist ''may be expired'' s"
  then have "set ''may be expired'' \<subseteq> set s"
    by (rule set_mono_sublist)
  then have "CHR ''m'' \<in> set s" by simp
  with assms show False by simp
qed

lemma check_status_cases:
  assumes "check_certificates_exist_and_valid path (Loaded acme_data) domains = Inr (b, s)"
  shows "s = ''No DNS resolver certificates found in ACME storage''
         \<or> s = ''No certificates found in DNS resolver storage''
         \<or> (\<exists>outs. s = join ''; '' outs
               \<and> list_all2 (\<lambda>d m. m = ''Certificate found for '' @ d
                                    \<or> m = ''No certificate found for '' @ d) domains outs)"
proof -
  have "\<exists>outs. s = join ''; '' outs
               \<and> list_all2 (\<lambda>d m. m = ''Certificate found for '' @ d
                                    \<or> m = ''No certificate found for '' @ d) domains outs"
    if "domain_loop certificates domains (True, []) = Inr (av, ms)" "s = join ''; '' ms"
    for certificates av ms
    using domain_loop_messages [OF that(1)] that(2) by auto
  then show ?thesis
    using assms unfolding check_certificates_exist_and_valid_def
    by (auto split: if_splits sum.splits)
qed

section \<open>Properties of the run\<close>

lemma main_skip:
  assumes "get_env_value (os_environ w) ''LE_CHALLENGE'' (fst (load_env_file (args_env_file w))) \<noteq> ''dns''
           \<or> get_env_value (os_environ w) ''LE_DNS_PROVIDER'' (fst (load_env_file (args_env_file w)))
               \<noteq> ''cloudflare''"
  shows "\<exists>m. main w =
           (Invoke LoadEnvFile # map (\<lambda>(l, m). Print l m) (snd (load_env_file (args_env_file w)))
              @ [Print INFO m],
            Exit Skipped 0)"
  using assms unfolding main_def by (auto simp: split_def Let_def)

lemma main_certs_valid:
  assumes "get_env_value (os_environ w) ''LE_CHALLENGE'' (fst (load_env_file (args_env_file w))) = ''dns''"
    and "get_env_value (os_environ w) ''LE_DNS_PROVIDER'' (fst (load_env_file (args_env_file w)))
           = ''cloudflare''"
    and "get_env_value (os_environ w) ''DOMAIN'' (fst (load_env_file (args_env_file w))) = domain"
    and "domain \<noteq> []" "domain \<noteq> ''paste-domain-here''"
    and "get_env_value (os_environ w) ''SUBDOMAIN'' (fst (load_env_file (args_env_file w))) = subdomain"
    and "check_certificates_exist_and_valid (args_acme_storage w) (acme_storage_file w)
           ([domain] @ (if subdomain \<noteq> [] then [subdomain @ ''.'' @ domain] else [])) =
         Inr (True, cert_status)"
  shows "main w =
           (Invoke LoadEnvFile # map (\<lambda>(l, m). Print l m) (snd (load_env_file (args_env_file w)))
              @ [Print INFO ''DNS-01 challenge with Cloudflare provider detected'',
                 Print INFO (''Checking certificates for domains: '' @
                   join '', '' ([domain] @ (if subdomain \<noteq> [] then [subdomain @ ''.'' @ domain] else []))),
                 Invoke CheckCertificates,
                 Print PASS ''Valid certificates already exist for all domains'',
                 Print INFO ''Skipping Cloudflare credential validation (certificates present)'',
                 Print INFO cert_status],
            Exit Passed_CertsValid 0)"
proof (cases "subdomain = []")
  case True
  with assms show ?thesis
    unfolding main_def by (simp add: split_def Let_def)
next
  case False
  with assms show ?thesis
    unfolding main_def by (simp add: split_def Let_def)
qed

lemma example_world_fields:
  "os_environ (example_world extra file net) = Map.empty"
  "args_acme_storage (example_world extra file net) = ''acme.json''"
  "acme_storage_file (example_world extra file net) = file"
  "provider (example_world extra file net) = net"
  by (simp_all add: example_world_def)

lemma example_world_lines:
  "fst (load_env_file (args_env_file (example_world extra file net))) =
     foldl (\<lambda>e l. parse_line l e)
       [''LE_CHALLENGE'' \<mapsto> ''dns'', ''LE_DNS_PROVIDER'' \<mapsto> ''cloudflare'',
        ''DOMAIN'' \<mapsto> ''example.com''] extra"
proof -
  have "args_env_file (example_world extra file net) =
          Opened (map Yield ([''LE_CHALLENGE=dns'', ''LE_DNS_PROVIDER=cloudflare'',
                              ''DOMAIN=example.com''] @ extra))"
    by (simp add: example_world_def)
  then have "fst (load_env_file (args_env_file (example_world extra file net))) =
          foldl (\<lambda>e l. parse_line l e)
            (foldl (\<lambda>e l. parse_line l e) Map.empty
               [''LE_CHALLENGE=dns'', ''LE_DNS_PROVIDER=cloudflare'', ''DOMAIN=example.com'']) extra"
    by (simp only: load_lines foldl_append)
  moreover have "foldl (\<lambda>e l. parse_line l e) Map.empty
               [''LE_CHALLENGE=dns'', ''LE_DNS_PROVIDER=cloudflare'', ''DOMAIN=example.com''] =
          [''LE_CHALLENGE'' \<mapsto> ''dns'', ''LE_DNS_PROVIDER'' \<mapsto> ''cloudflare'',
           ''DOMAIN'' \<mapsto> ''example.com'']"
    by (simp add: parse_line_def strip_def isspace_def split1_def sublist_single suffix_def Let_def)
  ultimately show ?thesis by simp
qed

lemma example_lines_parsed:
  "parse_line ''LE_CHALLENGE=http'' e = e(''LE_CHALLENGE'' \<mapsto> ''http'')"
  "parse_line ''LE_DNS_PROVIDER=route53'' e = e(''LE_DNS_PROVIDER'' \<mapsto> ''route53'')"
  "parse_line ''SUBDOMAIN=app'' e = e(''SUBDOMAIN'' \<mapsto> ''app'')"
  by (simp_all add: parse_line_def strip_def isspace_def split1_def sublist_single suffix_def Let_def)

section \<open>Claims on the configuration parser\<close>

text \<open>
  Claim C8. A missing configuration file gives the empty mapping, and so does a file
  without lines. The lines of a file are handled in order, each on the mapping parsed so
  far. A line that is blank or, once trimmed, starts with \<open>#\<close>, or that holds no \<open>=\<close>,
  leaves the mapping as it is, and taking it out of the file changes nothing. Any other
  line is split at its first \<open>=\<close>; the key and the value are trimmed; a value between two
  double quotes or between two single quotes is stored without that one pair, and a
  value that does not both start and end with the same quote character is stored as it
  is. So \<open>DOMAIN="example.com"\<close> and \<open>DOMAIN=example.com\<close> both give \<open>example.com\<close>. The
  values left are those that are one quote character alone: such a value is not
  enclosed in a pair of quotes, and the code stores the empty string for it, as on the
  line \<open>X="\<close>.
\<close>

theorem load_env_file_contract:
  "fst (load_env_file Missing) = Map.empty
   \<and> fst (load_env_file (Opened [])) = Map.empty
   \<and> fst (load_env_file (Opened (map Yield (ls @ [l])))) =
       parse_line l (fst (load_env_file (Opened (map Yield ls))))
   \<and> (strip l1 = [] \<or> prefix ''#'' (strip l1) \<or> CHR ''='' \<notin> set l1 \<longrightarrow>
        parse_line l1 env1 = env1
        \<and> fst (load_env_file (Opened (map Yield (ls1 @ [l1] @ ls2)))) =
            fst (load_env_file (Opened (map Yield (ls1 @ ls2)))))
   \<and> (strip l2 \<noteq> [] \<and> \<not> prefix ''#'' (strip l2) \<and> strip l2 = k2 @ ''='' @ v2
        \<and> CHR ''='' \<notin> set k2 \<and> q \<in> {CHR 0x22, CHR 0x27} \<and> strip v2 = [q] @ mid @ [q] \<longrightarrow>
        parse_line l2 env2 = env2(strip k2 \<mapsto> mid))
   \<and> (strip l3 \<noteq> [] \<and> \<not> prefix ''#'' (strip l3) \<and> strip l3 = k3 @ ''='' @ v3
        \<and> CHR ''='' \<notin> set k3
        \<and> \<not> (prefix [CHR 0x22] (strip v3) \<and> suffix [CHR 0x22] (strip v3))
        \<and> \<not> (prefix [CHR 0x27] (strip v3) \<and> suffix [CHR 0x27] (strip v3)) \<longrightarrow>
        parse_line l3 env3 = env3(strip k3 \<mapsto> strip v3))
   \<and> (strip l4 \<noteq> [] \<and> \<not> prefix ''#'' (strip l4) \<and> strip l4 = k4 @ ''='' @ v4
        \<and> CHR ''='' \<notin> set k4 \<and> q4 \<in> {CHR 0x22, CHR 0x27} \<and> strip v4 = [q4] \<longrightarrow>
        parse_line l4 env4 = env4(strip k4 \<mapsto> []))
   \<and> (prefix [q5] v5 \<and> suffix [q5] v5 \<longrightarrow> v5 = [q5] \<or> (\<exists>mid5. v5 = [q5] @ mid5 @ [q5]))
   \<and> fst (load_env_file (Opened [Yield ''DOMAIN=\"example.com\"''])) ''DOMAIN'' = Some ''example.com''
   \<and> fst (load_env_file (Opened [Yield ''DOMAIN=example.com''])) ''DOMAIN'' = Some ''example.com''
   \<and> fst (load_env_file (Opened [Yield ''X=\"''])) ''X'' = Some ''''"
proof -
  have missing: "fst (load_env_file Missing) = Map.empty"
    by (simp add: load_env_file_def)
  have empty: "fst (load_env_file (Opened [])) = Map.empty"
    by (simp add: load_env_file_def)
  have step: "fst (load_env_file (Opened (map Yield (ls @ [l])))) =
       parse_line l (fst (load_env_file (Opened (map Yield ls))))"
    unfolding load_lines by simp
  have skip: "strip l1 = [] \<or> prefix ''#'' (strip l1) \<or> CHR ''='' \<notin> set l1 \<longrightarrow>
        parse_line l1 env1 = env1
        \<and> fst (load_env_file (Opened (map Yield (ls1 @ [l1] @ ls2)))) =
            fst (load_env_file (Opened (map Yield (ls1 @ ls2))))"
    using parse_line_skipped [of l1] load_skip [of l1 ls1 ls2] by auto
  have quoted: "strip l2 \<noteq> [] \<and> \<not> prefix ''#'' (strip l2) \<and> strip l2 = k2 @ ''='' @ v2
        \<and> CHR ''='' \<notin> set k2 \<and> q \<in> {CHR 0x22, CHR 0x27} \<and> strip v2 = [q] @ mid @ [q] \<longrightarrow>
        parse_line l2 env2 = env2(strip k2 \<mapsto> mid)"
  proof (intro impI, elim conjE)
    assume h: "strip l2 \<noteq> []" "\<not> prefix ''#'' (strip l2)" "strip l2 = k2 @ ''='' @ v2"
      "CHR ''='' \<notin> set k2" and q: "q \<in> {CHR 0x22, CHR 0x27}" and v: "strip v2 = [q] @ mid @ [q]"
    have "slice_1_m1 (strip v2) = mid"
      unfolding v by (rule slice_quoted)
    moreover have "prefix [q] (strip v2) \<and> suffix [q] (strip v2)"
      unfolding v by (simp add: suffix_def)
    ultimately show "parse_line l2 env2 = env2(strip k2 \<mapsto> mid)"
      using q parse_line_assign [OF h, of env2] by auto
  qed
  have plain: "strip l3 \<noteq> [] \<and> \<not> prefix ''#'' (strip l3) \<and> strip l3 = k3 @ ''='' @ v3
        \<and> CHR ''='' \<notin> set k3
        \<and> \<not> (prefix [CHR 0x22] (strip v3) \<and> suffix [CHR 0x22] (strip v3))
        \<and> \<not> (prefix [CHR 0x27] (strip v3) \<and> suffix [CHR 0x27] (strip v3)) \<longrightarrow>
        parse_line l3 env3 = env3(strip k3 \<mapsto> strip v3)"
    using parse_line_assign [of l3 k3 v3 env3] by auto
  have lone: "strip l4 \<noteq> [] \<and> \<not> prefix ''#'' (strip l4) \<and> strip l4 = k4 @ ''='' @ v4
        \<and> CHR ''='' \<notin> set k4 \<and> q4 \<in> {CHR 0x22, CHR 0x27} \<and> strip v4 = [q4] \<longrightarrow>
        parse_line l4 env4 = env4(strip k4 \<mapsto> [])"
  proof (intro impI, elim conjE)
    assume h: "strip l4 \<noteq> []" "\<not> prefix ''#'' (strip l4)" "strip l4 = k4 @ ''='' @ v4"
      "CHR ''='' \<notin> set k4" and q: "q4 \<in> {CHR 0x22, CHR 0x27}" and v: "strip v4 = [q4]"
    have "slice_1_m1 (strip v4) = []"
      unfolding v by (simp add: slice_1_m1_def)
    moreover have "prefix [q4] (strip v4) \<and> suffix [q4] (strip v4)"
      unfolding v by simp
    ultimately show "parse_line l4 env4 = env4(strip k4 \<mapsto> [])"
      using q parse_line_assign [OF h, of env4] by auto
  qed
  have forms: "prefix [q5] v5 \<and> suffix [q5] v5 \<longrightarrow> v5 = [q5] \<or> (\<exists>mid5. v5 = [q5] @ mid5 @ [q5])"
  proof
    assume a: "prefix [q5] v5 \<and> suffix [q5] v5"
    then obtain t where t: "v5 = q5 # t"
      by (auto simp: prefix_def)
    show "v5 = [q5] \<or> (\<exists>mid5. v5 = [q5] @ mid5 @ [q5])"
    proof (cases t rule: rev_cases)
      case Nil
      with t show ?thesis by simp
    next
      case (snoc u y)
      with a t have "y = q5" by (auto simp: suffix_def)
      with snoc t show ?thesis by auto
    qed
  qed
  have ex1: "fst (load_env_file (Opened [Yield ''DOMAIN=\"example.com\"''])) ''DOMAIN'' = Some ''example.com''"
    by (simp add: load_env_file_def parse_line_def strip_def isspace_def split1_def slice_1_m1_def
        sublist_single suffix_def Let_def)
  have ex2: "fst (load_env_file (Opened [Yield ''DOMAIN=example.com''])) ''DOMAIN'' = Some ''example.com''"
    by (simp add: load_env_file_def parse_line_def strip_def isspace_def split1_def slice_1_m1_def
        sublist_single suffix_def Let_def)
  have ex3: "fst (load_env_file (Opened [Yield ''X=\"''])) ''X'' = Some ''''"
    by (simp add: load_env_file_def parse_line_def strip_def isspace_def split1_def slice_1_m1_def
        sublist_single suffix_def Let_def)
  show ?thesis
    using missing empty step skip quoted plain lone forms ex1 ex2 ex3 by blast
qed

theorem load_env_file_contract_witness:
  "CHR ''='' \<notin> set ''not an assignment''
   \<and> fst (load_env_file (Opened (map Yield ([''A=1''] @ [''not an assignment''] @ [''B=2''])))) =
       fst (load_env_file (Opened (map Yield ([''A=1''] @ [''B=2'']))))
   \<and> strip '' NAME = 'example.com' '' = ''NAME '' @ ''='' @ '' 'example.com'' @ [CHR 0x27]
   \<and> strip ('' 'example.com'' @ [CHR 0x27]) = [CHR 0x27] @ ''example.com'' @ [CHR 0x27]
   \<and> parse_line '' NAME = 'example.com' '' Map.empty = [''NAME'' \<mapsto> ''example.com'']
   \<and> strip ''KEY=a=b'' = ''KEY'' @ ''='' @ ''a=b''
   \<and> parse_line ''KEY=a=b'' Map.empty = [''KEY'' \<mapsto> ''a=b'']
   \<and> strip ''X=\"'' = ''X'' @ ''='' @ [CHR 0x22]
   \<and> parse_line ''X=\"'' Map.empty = [''X'' \<mapsto> '''']"
proof -
  have s1: "strip '' NAME = 'example.com' '' = ''NAME '' @ ''='' @ '' 'example.com'' @ [CHR 0x27]"
    by (simp add: strip_def isspace_def)
  have s2: "strip ('' 'example.com'' @ [CHR 0x27]) = [CHR 0x27] @ ''example.com'' @ [CHR 0x27]"
    by (simp add: strip_def isspace_def)
  have s3: "strip ''KEY=a=b'' = ''KEY'' @ ''='' @ ''a=b''"
    by (simp add: strip_def isspace_def)
  have s4: "strip ''NAME '' = ''NAME''" "strip ''KEY'' = ''KEY''" "strip ''a=b'' = ''a=b''"
    "strip ''X'' = ''X''" "strip [CHR 0x22] = [CHR 0x22]"
    by (simp_all add: strip_def isspace_def)
  have s5: "strip ''X=\"'' = ''X'' @ ''='' @ [CHR 0x22]"
    by (simp add: strip_def isspace_def)
  note t = load_env_file_contract [where ?l1.0 = "''not an assignment''" and ?ls1.0 = "[''A=1'']"
      and ?ls2.0 = "[''B=2'']"
      and ?l2.0 = "'' NAME = 'example.com' ''" and ?k2.0 = "''NAME ''"
      and ?v2.0 = "'' 'example.com'' @ [CHR 0x27]"
      and q = "CHR 0x27" and mid = "''example.com''" and ?env2.0 = Map.empty
      and ?l3.0 = "''KEY=a=b''" and ?k3.0 = "''KEY''" and ?v3.0 = "''a=b''" and ?env3.0 = Map.empty
      and ?l4.0 = "''X=\"''" and ?k4.0 = "''X''" and ?v4.0 = "[CHR 0x22]" and ?q4.0 = "CHR 0x22"
      and ?env4.0 = Map.empty
      and ls = "[]" and l = "''A=1''" and ?env1.0 = Map.empty
      and ?q5.0 = "CHR 0x22" and ?v5.0 = "[CHR 0x22]"]
  show ?thesis
    using t s1 s2 s3 s4 s5 by (simp add: suffix_def)
qed

text \<open>
  Claim C10. When \<open>open\<close> raises, or the line iterator raises at any point of the file,
  \<open>load_env_file\<close> returns the empty mapping: the pairs parsed from the lines before the
  exception are not returned.
\<close>

theorem load_env_file_exception_discards:
  "load_env_file (OpenFails e) = (Map.empty, [(ERROR, ''Failed to parse .env file: '' @ e)])
   \<and> ((\<exists>x. Raise x \<in> set items) \<longrightarrow> fst (load_env_file (Opened items)) = Map.empty)"
proof -
  have "fst (load_env_file (Opened items)) = Map.empty" if r: "Raise x \<in> set items" for x
  proof -
    obtain e' where "env_loop items Map.empty = Inl e'"
      using env_loop_raise [OF r] by blast
    then show ?thesis by (simp add: load_env_file_def)
  qed
  then show ?thesis by (auto simp: load_env_file_def)
qed

theorem load_env_file_exception_discards_witness:
  "Raise ''disk error'' \<in> set [Yield ''DOMAIN=example.com'', Raise ''disk error'']
   \<and> fst (load_env_file (Opened [Yield ''DOMAIN=example.com''])) ''DOMAIN'' = Some ''example.com''
   \<and> fst (load_env_file (Opened [Yield ''DOMAIN=example.com'', Raise ''disk error''])) ''DOMAIN'' = None"
proof -
  have h: "\<exists>x. Raise x \<in> set [Yield ''DOMAIN=example.com'', Raise ''disk error'']"
    by simp
  have "fst (load_env_file (Opened [Yield ''DOMAIN=example.com''])) ''DOMAIN'' = Some ''example.com''"
    by (simp add: load_env_file_def parse_line_def strip_def isspace_def split1_def
        sublist_single suffix_def Let_def)
  then show ?thesis
    using h load_env_file_exception_discards [of "''disk error''" "[Yield ''DOMAIN=example.com'', Raise ''disk error'']"]
    by simp
qed

section \<open>Claim on the credential validator\<close>

text \<open>
  Claim C7. The credential validator reads two variables, \<open>CF_DNS_API_TOKEN\<close> first and
  \<open>CF_API_TOKEN\<close> second, each through \<open>get_env_value\<close> (process environment before the
  file mapping). A non-empty value of the first is the credential, whatever the second
  holds; otherwise a non-empty value of the second is the credential; otherwise the
  result is not valid, the token is \<open>None\<close> and the message names both variables. No other
  variable of the configuration changes the result.
\<close>

theorem validate_cloudflare_credentials_priority:
  "(get_env_value environ ''CF_DNS_API_TOKEN'' env_vars \<noteq> [] \<longrightarrow>
      validate_cloudflare_credentials environ env_vars =
        (True, Some (get_env_value environ ''CF_DNS_API_TOKEN'' env_vars), None))
   \<and> (get_env_value environ ''CF_DNS_API_TOKEN'' env_vars = []
        \<and> get_env_value environ ''CF_API_TOKEN'' env_vars \<noteq> [] \<longrightarrow>
      validate_cloudflare_credentials environ env_vars =
        (True, Some (get_env_value environ ''CF_API_TOKEN'' env_vars), None))
   \<and> (get_env_value environ ''CF_DNS_API_TOKEN'' env_vars = []
        \<and> get_env_value environ ''CF_API_TOKEN'' env_vars = [] \<longrightarrow>
      validate_cloudflare_credentials environ env_vars =
        (False, None, Some (strip credential_error_msg)))
   \<and> sublist ''CF_DNS_API_TOKEN'' (strip credential_error_msg)
   \<and> sublist ''CF_API_TOKEN'' (strip credential_error_msg)
   \<and> (k \<noteq> ''CF_DNS_API_TOKEN'' \<and> k \<noteq> ''CF_API_TOKEN'' \<longrightarrow>
      validate_cloudflare_credentials (environ(k := x)) (env_vars(k := y)) =
        validate_cloudflare_credentials environ env_vars)"
proof -
  have other: "validate_cloudflare_credentials (environ(k := x)) (env_vars(k := y)) =
        validate_cloudflare_credentials environ env_vars"
    if "k \<noteq> ''CF_DNS_API_TOKEN''" "k \<noteq> ''CF_API_TOKEN''"
    unfolding validate_cloudflare_credentials_def
    by (simp only: get_env_value_other [OF that(1)] get_env_value_other [OF that(2)])
  show ?thesis
    using other credential_error_names
    by (auto simp: validate_cloudflare_credentials_def Let_def)
qed

theorem validate_cloudflare_credentials_priority_witness:
  "validate_cloudflare_credentials Map.empty
       [''CF_DNS_API_TOKEN'' \<mapsto> ''preferred'', ''CF_API_TOKEN'' \<mapsto> ''legacy''] =
     (True, Some ''preferred'', None)
   \<and> validate_cloudflare_credentials [''CF_DNS_API_TOKEN'' \<mapsto> '''']
       [''CF_DNS_API_TOKEN'' \<mapsto> ''preferred'', ''CF_API_TOKEN'' \<mapsto> ''legacy''] =
     (True, Some ''legacy'', None)
   \<and> fst (validate_cloudflare_credentials Map.empty [''DOMAIN'' \<mapsto> ''example.com'']) = False
   \<and> fst (snd (validate_cloudflare_credentials Map.empty [''DOMAIN'' \<mapsto> ''example.com''])) = None
   \<and> validate_cloudflare_credentials (Map.empty(''DOMAIN'' \<mapsto> ''a''))
        ([''CF_API_TOKEN'' \<mapsto> ''legacy''](''DOMAIN'' := None)) =
       validate_cloudflare_credentials Map.empty [''CF_API_TOKEN'' \<mapsto> ''legacy'']"
proof -
  have a: "validate_cloudflare_credentials Map.empty
       [''CF_DNS_API_TOKEN'' \<mapsto> ''preferred'', ''CF_API_TOKEN'' \<mapsto> ''legacy''] =
     (True, Some ''preferred'', None)"
    using validate_cloudflare_credentials_priority
      [of Map.empty "[''CF_DNS_API_TOKEN'' \<mapsto> ''preferred'', ''CF_API_TOKEN'' \<mapsto> ''legacy'']"]
    by (simp add: get_env_value_def)
  have b: "validate_cloudflare_credentials [''CF_DNS_API_TOKEN'' \<mapsto> '''']
       [''CF_DNS_API_TOKEN'' \<mapsto> ''preferred'', ''CF_API_TOKEN'' \<mapsto> ''legacy''] =
     (True, Some ''legacy'', None)"
    using validate_cloudflare_credentials_priority
      [of "[''CF_DNS_API_TOKEN'' \<mapsto> '''']"
          "[''CF_DNS_API_TOKEN'' \<mapsto> ''preferred'', ''CF_API_TOKEN'' \<mapsto> ''legacy'']"]
    by (simp add: get_env_value_def)
  have "validate_cloudflare_credentials Map.empty [''DOMAIN'' \<mapsto> ''example.com''] =
          (False, None, Some (strip credential_error_msg))"
    using validate_cloudflare_credentials_priority [of Map.empty "[''DOMAIN'' \<mapsto> ''example.com'']"]
    by (simp add: get_env_value_def)
  then have c: "fst (validate_cloudflare_credentials Map.empty [''DOMAIN'' \<mapsto> ''example.com'']) = False"
    "fst (snd (validate_cloudflare_credentials Map.empty [''DOMAIN'' \<mapsto> ''example.com''])) = None"
    by auto
  have d: "validate_cloudflare_credentials (Map.empty(''DOMAIN'' \<mapsto> ''a''))
        ([''CF_API_TOKEN'' \<mapsto> ''legacy''](''DOMAIN'' := None)) =
       validate_cloudflare_credentials Map.empty [''CF_API_TOKEN'' \<mapsto> ''legacy'']"
    using validate_cloudflare_credentials_priority
      [of Map.empty "[''CF_API_TOKEN'' \<mapsto> ''legacy'']" "''DOMAIN''" "Some ''a''" None]
    by simp
  show ?thesis
    using a b c d by blast
qed

section \<open>Claims on the zone access probe\<close>

text \<open>
  Claim C5. Every domain string is the join with \<open>.\<close> of one non-empty list of labels
  without \<open>.\<close>, and splitting it on \<open>.\<close> gives these labels. With more than two
  labels the base-domain candidate is the last two labels joined by \<open>.\<close>; with one or two
  labels it is the domain itself. So \<open>app.example.com\<close> gives \<open>example.com\<close>,
  \<open>example.com\<close> gives itself and \<open>app.example.co.uk\<close> gives \<open>co.uk\<close>.
\<close>

theorem base_domain_of_labels:
  "(\<exists>ls. ls \<noteq> [] \<and> (\<forall>l \<in> set ls. CHR ''.'' \<notin> set l) \<and> domain = join ''.'' ls)
   \<and> (ls \<noteq> [] \<and> (\<forall>l \<in> set ls. CHR ''.'' \<notin> set l) \<and> domain = join ''.'' ls \<longrightarrow>
        split_on CHR ''.'' domain = ls
        \<and> (2 < length ls \<longrightarrow>
             base_domain_of domain = ls ! (length ls - 2) @ ''.'' @ ls ! (length ls - 1))
        \<and> (length ls \<le> 2 \<longrightarrow> base_domain_of domain = domain))
   \<and> base_domain_of ''app.example.com'' = ''example.com''
   \<and> base_domain_of ''example.com'' = ''example.com''
   \<and> base_domain_of ''app.example.co.uk'' = ''co.uk''"
proof -
  have ex: "\<exists>ls. ls \<noteq> [] \<and> (\<forall>l \<in> set ls. CHR ''.'' \<notin> set l) \<and> domain = join ''.'' ls"
    using split_on_not_Nil [of "CHR ''.''" domain] split_on_labels [of _ "CHR ''.''" domain]
      join_split_on [of "CHR ''.''" domain]
    by (intro exI [of _ "split_on CHR ''.'' domain"]) auto
  have gen: "split_on CHR ''.'' domain = ls
        \<and> (2 < length ls \<longrightarrow>
             base_domain_of domain = ls ! (length ls - 2) @ ''.'' @ ls ! (length ls - 1))
        \<and> (length ls \<le> 2 \<longrightarrow> base_domain_of domain = domain)"
    if h: "ls \<noteq> []" "\<forall>l \<in> set ls. CHR ''.'' \<notin> set l" "domain = join ''.'' ls"
  proof -
    have s: "split_on CHR ''.'' domain = ls"
      unfolding h(3) using split_on_join [OF h(1) h(2)] by simp
    show ?thesis
      using s drop_last_two [of ls] by (auto simp: base_domain_of_def Let_def)
  qed
  have e1: "base_domain_of ''app.example.com'' = ''example.com''"
    by (simp add: base_domain_of_def Let_def)
  have e2: "base_domain_of ''example.com'' = ''example.com''"
    by (simp add: base_domain_of_def Let_def)
  have e3: "base_domain_of ''app.example.co.uk'' = ''co.uk''"
    by (simp add: base_domain_of_def Let_def)
  show ?thesis
    using ex gen e1 e2 e3 by blast
qed

theorem base_domain_of_labels_witness:
  "[''shop'', ''app'', ''example'', ''org''] \<noteq> []
   \<and> CHR ''.'' \<notin> set ''shop'' \<and> CHR ''.'' \<notin> set ''app''
   \<and> CHR ''.'' \<notin> set ''example'' \<and> CHR ''.'' \<notin> set ''org''
   \<and> ''shop.app.example.org'' = join ''.'' [''shop'', ''app'', ''example'', ''org'']
   \<and> split_on CHR ''.'' ''shop.app.example.org'' = [''shop'', ''app'', ''example'', ''org'']
   \<and> base_domain_of ''shop.app.example.org'' = ''example.org''
   \<and> base_domain_of (join ''.'' [''localhost'']) = ''localhost''"
proof -
  have h: "[''shop'', ''app'', ''example'', ''org''] \<noteq> []
     \<and> (\<forall>l \<in> set [''shop'', ''app'', ''example'', ''org'']. CHR ''.'' \<notin> set l)
     \<and> ''shop.app.example.org'' = join ''.'' [''shop'', ''app'', ''example'', ''org'']"
    by simp
  have g: "[''localhost''] \<noteq> [] \<and> (\<forall>l \<in> set [''localhost'']. CHR ''.'' \<notin> set l)
     \<and> join ''.'' [''localhost''] = join ''.'' [''localhost'']"
    by simp
  show ?thesis
    using h g
      base_domain_of_labels [of "''shop.app.example.org''" "[''shop'', ''app'', ''example'', ''org'']"]
      base_domain_of_labels [of "join ''.'' [''localhost'']" "[''localhost'']"]
    by simp
qed

text \<open>
  Claim C6. Take a list-zones response whose \<open>success\<close> is true and whose \<open>result\<close> is a list
  of zones, every zone an object with a \<open>name\<close> entry. With no zone in the list the probe
  fails with the no-zones error, after that one request. Otherwise, when the zone at
  position \<open>i\<close> is the first whose name is the requested domain or the base-domain
  candidate, the probe goes on with that zone: its second request is the DNS-records
  request for the \<open>id\<close> of that zone. When no zone has such a name the probe fails, after
  the one request, with the message that holds a line \<open>  - name\<close> for every zone of the
  list.
\<close>

theorem zone_selection:
  assumes resp: "net ''https://api.cloudflare.com/client/v4/zones?per_page=50''
                   (''Bearer '' @ api_token) = Inr data"
    and succ: "dict_get data ''success'' JNull = Inr success" "truthy success"
    and res: "dict_get data ''result'' (JArr []) = Inr (JArr zones)"
    and named: "list_all2 (\<lambda>z n. py_in ''name'' z = Inr True \<and> dict_get z ''name'' (JStr '''') = Inr n)
                  zones names"
  shows "(zones = [] \<longrightarrow>
            test_cloudflare_api_connectivity fmt net api_token domain =
              ((False, Some ''API token has no access to any zones'', None),
               [''https://api.cloudflare.com/client/v4/zones?per_page=50'']))
       \<and> (i < length zones
            \<and> (names ! i = JStr domain \<or> names ! i = JStr (base_domain_of domain))
            \<and> (\<forall>j < i. names ! j \<noteq> JStr domain \<and> names ! j \<noteq> JStr (base_domain_of domain))
            \<and> dict_get (zones ! i) ''id'' JNull = Inr zone_id \<longrightarrow>
            select_zone fmt domain (base_domain_of domain) data = Inr (Inr (zones ! i))
            \<and> probe_requests fmt net api_token domain (base_domain_of domain) =
                (fst (dns_records_check fmt net (''Bearer '' @ api_token) (zones ! i)),
                 [''https://api.cloudflare.com/client/v4/zones?per_page=50'',
                  ''https://api.cloudflare.com/client/v4/zones/'' @ py_str fmt zone_id @
                    ''/dns_records?per_page=1'']))
       \<and> (zones \<noteq> []
            \<and> (\<forall>n \<in> set names. n \<noteq> JStr domain \<and> n \<noteq> JStr (base_domain_of domain)) \<longrightarrow>
            test_cloudflare_api_connectivity fmt net api_token domain =
              ((False, Some (zone_not_found_msg fmt domain (base_domain_of domain) names), None),
               [''https://api.cloudflare.com/client/v4/zones?per_page=50''])
            \<and> (\<forall>n \<in> set names.
                  sublist (''  - '' @ py_str fmt n @ ''\<newline>'')
                    (zone_not_found_msg fmt domain (base_domain_of domain) names)))"
proof (intro conjI impI)
  assume "zones = []"
  then have "select_zone fmt domain (base_domain_of domain) data =
               Inr (Inl (False, Some ''API token has no access to any zones'', None))"
    using select_zone_empty [OF succ] res by simp
  then show "test_cloudflare_api_connectivity fmt net api_token domain =
              ((False, Some ''API token has no access to any zones'', None),
               [''https://api.cloudflare.com/client/v4/zones?per_page=50''])"
    by (rule probe_of_return [where net = net and api_token = api_token, OF resp])
next
  assume i: "i < length zones
            \<and> (names ! i = JStr domain \<or> names ! i = JStr (base_domain_of domain))
            \<and> (\<forall>j < i. names ! j \<noteq> JStr domain \<and> names ! j \<noteq> JStr (base_domain_of domain))
            \<and> dict_get (zones ! i) ''id'' JNull = Inr zone_id"
  then have sel: "select_zone fmt domain (base_domain_of domain) data = Inr (Inr (zones ! i))"
    using select_zone_match [OF succ res named, of i domain "base_domain_of domain" fmt] by blast
  then show "select_zone fmt domain (base_domain_of domain) data = Inr (Inr (zones ! i))" .
  from i have "dict_get (zones ! i) ''id'' JNull = Inr zone_id" by blast
  then show "probe_requests fmt net api_token domain (base_domain_of domain) =
                (fst (dns_records_check fmt net (''Bearer '' @ api_token) (zones ! i)),
                 [''https://api.cloudflare.com/client/v4/zones?per_page=50'',
                  ''https://api.cloudflare.com/client/v4/zones/'' @ py_str fmt zone_id @
                    ''/dns_records?per_page=1''])"
    unfolding probe_of_zone [where net = net and api_token = api_token, OF resp sel]
    by (simp only: dns_records_check_requests)
next
  assume "zones \<noteq> []
            \<and> (\<forall>n \<in> set names. n \<noteq> JStr domain \<and> n \<noteq> JStr (base_domain_of domain))"
  then have "select_zone fmt domain (base_domain_of domain) data =
               Inr (Inl (False, Some (zone_not_found_msg fmt domain (base_domain_of domain) names),
                 None))"
    using select_zone_no_match [OF succ res named] by blast
  then show "test_cloudflare_api_connectivity fmt net api_token domain =
              ((False, Some (zone_not_found_msg fmt domain (base_domain_of domain) names), None),
               [''https://api.cloudflare.com/client/v4/zones?per_page=50''])"
    by (rule probe_of_return [where net = net and api_token = api_token, OF resp])
next
  show "\<forall>n \<in> set names.
                  sublist (''  - '' @ py_str fmt n @ ''\<newline>'')
                    (zone_not_found_msg fmt domain (base_domain_of domain) names)"
    using zone_not_found_msg_lists by blast
qed

theorem zone_selection_witness:
  "list_all2 (\<lambda>z n. py_in ''name'' z = Inr True \<and> dict_get z ''name'' (JStr '''') = Inr n)
     example_zones [JStr ''other.com'', JStr ''example.com'']
   \<and> select_zone (\<lambda>v. ''?'') ''app.example.com'' (base_domain_of ''app.example.com'')
        (example_response example_zones) = Inr (Inr (example_zones ! 1))
   \<and> probe_requests (\<lambda>v. ''?'') (example_provider example_zones) ''secret'' ''app.example.com''
        (base_domain_of ''app.example.com'') =
       (fst (dns_records_check (\<lambda>v. ''?'') (example_provider example_zones) (''Bearer '' @ ''secret'')
              (example_zones ! 1)),
        [''https://api.cloudflare.com/client/v4/zones?per_page=50'',
         ''https://api.cloudflare.com/client/v4/zones/z2/dns_records?per_page=1''])
   \<and> test_cloudflare_api_connectivity (\<lambda>v. ''?'') (example_provider example_zones) ''secret''
        ''example.org'' =
       ((False, Some (zone_not_found_msg (\<lambda>v. ''?'') ''example.org'' ''example.org''
                       [JStr ''other.com'', JStr ''example.com'']), None),
        [''https://api.cloudflare.com/client/v4/zones?per_page=50''])
   \<and> sublist ''  - other.com\<newline>''
        (zone_not_found_msg (\<lambda>v. ''?'') ''example.org'' ''example.org''
           [JStr ''other.com'', JStr ''example.com''])
   \<and> test_cloudflare_api_connectivity (\<lambda>v. ''?'') (example_provider []) ''secret'' ''example.org'' =
       ((False, Some ''API token has no access to any zones'', None),
        [''https://api.cloudflare.com/client/v4/zones?per_page=50''])
   \<and> test_cloudflare_api_connectivity (\<lambda>v. ''?'') (example_provider example_zones) ''secret''
        ''app.example.com'' =
       ((True, None,
         Some \<lparr>info_id = JStr ''z2'', info_name = JStr ''example.com'',
               info_status = JStr ''active''\<rparr>),
        [''https://api.cloudflare.com/client/v4/zones?per_page=50'',
         ''https://api.cloudflare.com/client/v4/zones/z2/dns_records?per_page=1''])"
proof -
  have resp: "example_provider zs ''https://api.cloudflare.com/client/v4/zones?per_page=50''
                (''Bearer '' @ ''secret'') = Inr (example_response zs)" for zs
    by (simp add: example_provider_def)
  have succ: "dict_get (example_response zs) ''success'' JNull = Inr (JBool True)"
    "truthy (JBool True)" for zs
    by (simp_all add: example_response_def)
  have res: "dict_get (example_response zs) ''result'' (JArr []) = Inr (JArr zs)" for zs
    by (simp add: example_response_def)
  have named: "list_all2 (\<lambda>z n. py_in ''name'' z = Inr True \<and> dict_get z ''name'' (JStr '''') = Inr n)
     example_zones [JStr ''other.com'', JStr ''example.com'']"
    by (simp add: example_zones_def)
  have none: "list_all2 (\<lambda>z n. py_in ''name'' z = Inr True \<and> dict_get z ''name'' (JStr '''') = Inr n)
     [] []"
    by simp
  have b1: "base_domain_of ''app.example.com'' = ''example.com''"
    by (simp add: base_domain_of_def Let_def)
  have b2: "base_domain_of ''example.org'' = ''example.org''"
    by (simp add: base_domain_of_def Let_def)
  have len: "length example_zones = 2" "example_zones \<noteq> []"
    by (simp_all add: example_zones_def)
  have zid: "dict_get (example_zones ! 1) ''id'' JNull = Inr (JStr ''z2'')"
    by (simp add: example_zones_def)
  note m = zone_selection [where net = "example_provider example_zones" and api_token = "''secret''"
      and fmt = "\<lambda>v. ''?''" and domain = "''app.example.com''" and i = 1 and zone_id = "JStr ''z2''",
      OF resp succ res named]
  note n = zone_selection [where net = "example_provider example_zones" and api_token = "''secret''"
      and fmt = "\<lambda>v. ''?''" and domain = "''example.org''",
      OF resp succ res named]
  note e = zone_selection [where net = "example_provider []" and api_token = "''secret''"
      and fmt = "\<lambda>v. ''?''" and domain = "''example.org''",
      OF resp succ res none]
  have sel: "select_zone (\<lambda>v. ''?'') ''app.example.com'' (base_domain_of ''app.example.com'')
        (example_response example_zones) = Inr (Inr (example_zones ! 1))"
    and req: "probe_requests (\<lambda>v. ''?'') (example_provider example_zones) ''secret'' ''app.example.com''
        (base_domain_of ''app.example.com'') =
       (fst (dns_records_check (\<lambda>v. ''?'') (example_provider example_zones) (''Bearer '' @ ''secret'')
              (example_zones ! 1)),
        [''https://api.cloudflare.com/client/v4/zones?per_page=50'',
         ''https://api.cloudflare.com/client/v4/zones/z2/dns_records?per_page=1''])"
    using m zid len unfolding b1 by (simp_all add: less_Suc_eq py_str_def)
  have nf: "test_cloudflare_api_connectivity (\<lambda>v. ''?'') (example_provider example_zones) ''secret''
        ''example.org'' =
       ((False, Some (zone_not_found_msg (\<lambda>v. ''?'') ''example.org'' ''example.org''
                       [JStr ''other.com'', JStr ''example.com'']), None),
        [''https://api.cloudflare.com/client/v4/zones?per_page=50''])"
    and ls: "sublist ''  - other.com\<newline>''
        (zone_not_found_msg (\<lambda>v. ''?'') ''example.org'' ''example.org''
           [JStr ''other.com'', JStr ''example.com''])"
    using n len unfolding b2 by (simp_all add: py_str_def)
  have em: "test_cloudflare_api_connectivity (\<lambda>v. ''?'') (example_provider []) ''secret'' ''example.org'' =
       ((False, Some ''API token has no access to any zones'', None),
        [''https://api.cloudflare.com/client/v4/zones?per_page=50''])"
    using e by simp
  have ok: "test_cloudflare_api_connectivity (\<lambda>v. ''?'') (example_provider example_zones) ''secret''
        ''app.example.com'' =
       ((True, None,
         Some \<lparr>info_id = JStr ''z2'', info_name = JStr ''example.com'',
               info_status = JStr ''active''\<rparr>),
        [''https://api.cloudflare.com/client/v4/zones?per_page=50'',
         ''https://api.cloudflare.com/client/v4/zones/z2/dns_records?per_page=1''])"
    unfolding test_cloudflare_api_connectivity_def req Let_def
    by (simp add: dns_records_check_def example_zones_def example_provider_def py_str_def Let_def)
  show ?thesis
    using named sel req nf ls em ok by blast
qed

section \<open>Claims on the certificate store check\<close>

text \<open>
  Claim C3. Take a well-formed store: an object whose \<open>dns\<close> entry is an object whose
  \<open>Certificates\<close> entry is a non-empty list of records, every record an object whose
  \<open>domain\<close> entry is absent or an object. For every list of requested domains the check
  returns; a requested domain counts as satisfied exactly when the main label of some
  record is that domain or \<open>*.\<close> followed by it; the returned flag is true exactly when
  every requested domain is satisfied; and the status is the per-domain messages, in the
  order of the requested domains, joined with \<open>; \<close>.
\<close>

theorem check_certificates_matching:
  assumes "map_of store ''dns'' = Some (JObj dns)"
    and "map_of dns ''Certificates'' = Some (JArr certificates)"
    and "certificates \<noteq> []"
    and "\<forall>c \<in> set certificates. \<exists>kvs. c = JObj kvs \<and>
           (map_of kvs ''domain'' = None \<or> (\<exists>d. map_of kvs ''domain'' = Some (JObj d)))"
  shows "check_certificates_exist_and_valid path (Loaded (JObj store)) domains =
           Inr ((\<forall>d \<in> set domains. \<exists>c \<in> set certificates.
                   main_label c = Inr (JStr d) \<or> main_label c = Inr (JStr (''*.'' @ d))),
                join ''; ''
                  (map (\<lambda>d. if \<exists>c \<in> set certificates.
                                  main_label c = Inr (JStr d) \<or> main_label c = Inr (JStr (''*.'' @ d))
                             then ''Certificate found for '' @ d
                             else ''No certificate found for '' @ d) domains))"
proof -
  have "\<forall>c \<in> set certificates. \<exists>m. main_label c = Inr m"
    using assms(4) main_label_returns by blast
  then obtain r where "domain_loop (JArr certificates) domains (True, []) = Inr r"
    using domain_loop_returns by blast
  then obtain b ms where loop: "domain_loop (JArr certificates) domains (True, []) = Inr (b, ms)"
    by (cases r) auto
  note r = domain_loop_result [OF loop]
  show ?thesis
    unfolding check_loaded_store [OF assms(1-3)] loop using r by simp
qed

theorem check_certificates_matching_witness:
  "map_of (example_store [example_cert ''*.example.com'', example_cert ''other.org'']) ''dns'' =
     Some (JObj [(''Certificates'', JArr [example_cert ''*.example.com'', example_cert ''other.org''])])
   \<and> check_certificates_exist_and_valid ''acme.json''
        (Loaded (JObj (example_store [example_cert ''*.example.com'', example_cert ''other.org''])))
        [''example.com'', ''app.example.com'', ''other.org''] =
      Inr (False, ''Certificate found for example.com; No certificate found for app.example.com; Certificate found for other.org'')"
proof -
  let ?certs = "[example_cert ''*.example.com'', example_cert ''other.org'']"
  let ?ds = "[''example.com'', ''app.example.com'', ''other.org'']"
  have h: "map_of (example_store ?certs) ''dns'' = Some (JObj [(''Certificates'', JArr ?certs)])"
    "map_of [(''Certificates'', JArr ?certs)] ''Certificates'' = Some (JArr ?certs)"
    "?certs \<noteq> []"
    by (simp_all add: example_store_def)
  have shape: "\<forall>c \<in> set ?certs. \<exists>kvs. c = JObj kvs \<and>
             (map_of kvs ''domain'' = None \<or> (\<exists>d. map_of kvs ''domain'' = Some (JObj d)))"
    by (simp add: example_cert_def)
  have ml: "main_label (example_cert l) = Inr (JStr l)" for l
    by (simp add: example_cert_def main_label_def)
  have "check_certificates_exist_and_valid ''acme.json''
        (Loaded (JObj (example_store ?certs))) ?ds =
      Inr (False, ''Certificate found for example.com; No certificate found for app.example.com; Certificate found for other.org'')"
    using check_certificates_matching [OF h shape, of "''acme.json''" ?ds]
    by (simp add: ml)
  with h(1) show ?thesis by simp
qed

text \<open>
  Claim C4. A missing store file and a file that cannot be read or parsed give
  \<open>(False, reason)\<close>. A loaded store of another shape does not: on the JSON array
  \<open>["dns"]\<close>, and on a store with the record \<open>{"domain": "example.com"}\<close>, the check ends in
  an \<open>AttributeError\<close> that nothing catches, and so does the run of \<open>main\<close>.
\<close>

theorem check_certificates_structural_surprise:
  "check_certificates_exist_and_valid path NoFile domains =
     Inr (False, ''ACME storage file not found at '' @ path)
   \<and> check_certificates_exist_and_valid path (LoadFails e) domains =
       Inr (False, ''Failed to read ACME storage: '' @ e)
   \<and> check_certificates_exist_and_valid ''acme.json'' (Loaded (JArr [JStr ''dns''])) [''example.com''] =
       Inl (AttributeError ''list'' ''get'')
   \<and> check_certificates_exist_and_valid ''acme.json''
        (Loaded (JObj (example_store [JObj [(''domain'', JStr ''example.com'')]]))) [''example.com''] =
       Inl (AttributeError ''str'' ''get'')
   \<and> snd (main (example_world []
              (Loaded (JObj (example_store [JObj [(''domain'', JStr ''example.com'')]]))) net)) =
       Uncaught (AttributeError ''str'' ''get'')"
proof -
  have a: "check_certificates_exist_and_valid ''acme.json''
        (Loaded (JObj (example_store [JObj [(''domain'', JStr ''example.com'')]]))) [''example.com''] =
       Inl (AttributeError ''str'' ''get'')"
    by (simp add: example_store_def main_label_def check_certificates_exist_and_valid_def)
  show ?thesis
    using a main_example_uncaught [OF a]
    by (simp add: check_certificates_exist_and_valid_def)
qed

text \<open>
  Claim C9, as amended. In the inner loop a record that matches sets \<open>found\<close> and \<open>valid\<close>
  together, so after the loop \<open>valid\<close> equals \<open>found\<close> and the branch for a certificate
  found but not valid is never taken. The outer loop adds, for every requested domain
  in order, either \<open>Certificate found for\<close> or \<open>No certificate found for\<close> followed by the
  domain, and the status of a loaded store is one of the two early reasons or these
  messages joined with \<open>; \<close>. The status holds the text \<open>may be expired\<close> only when the
  store path, the text of the read error or a requested domain holds it.
\<close>

theorem found_is_valid:
  "(cert_loop d certs (False, False, ms) = Inr (found, valid, ms') \<longrightarrow> valid = found)
   \<and> (domain_loop certificates ds (av, ms0) = Inr (av', ms1) \<longrightarrow>
        (\<exists>outs. ms1 = ms0 @ outs
           \<and> list_all2 (\<lambda>d m. m = ''Certificate found for '' @ d
                                \<or> m = ''No certificate found for '' @ d) ds outs))
   \<and> (check_certificates_exist_and_valid path (Loaded acme_data) domains = Inr (b, s) \<longrightarrow>
        s = ''No DNS resolver certificates found in ACME storage''
        \<or> s = ''No certificates found in DNS resolver storage''
        \<or> (\<exists>outs. s = join ''; '' outs
              \<and> list_all2 (\<lambda>d m. m = ''Certificate found for '' @ d
                                   \<or> m = ''No certificate found for '' @ d) domains outs))
   \<and> (check_certificates_exist_and_valid path file domains = Inr (b', s')
        \<and> sublist ''may be expired'' s' \<longrightarrow>
        sublist ''may be expired'' path
        \<or> (\<exists>e. file = LoadFails e \<and> sublist ''may be expired'' e)
        \<or> (\<exists>d \<in> set domains. sublist ''may be expired'' d))"
proof (intro conjI impI)
  assume "cert_loop d certs (False, False, ms) = Inr (found, valid, ms')"
  then show "valid = found"
    using cert_loop_result by blast
next
  assume "domain_loop certificates ds (av, ms0) = Inr (av', ms1)"
  then show "\<exists>outs. ms1 = ms0 @ outs
           \<and> list_all2 (\<lambda>d m. m = ''Certificate found for '' @ d
                                \<or> m = ''No certificate found for '' @ d) ds outs"
    by (rule domain_loop_messages)
next
  assume "check_certificates_exist_and_valid path (Loaded acme_data) domains = Inr (b, s)"
  then show "s = ''No DNS resolver certificates found in ACME storage''
        \<or> s = ''No certificates found in DNS resolver storage''
        \<or> (\<exists>outs. s = join ''; '' outs
              \<and> list_all2 (\<lambda>d m. m = ''Certificate found for '' @ d
                                   \<or> m = ''No certificate found for '' @ d) domains outs)"
    by (rule check_status_cases)
next
  assume h: "check_certificates_exist_and_valid path file domains = Inr (b', s')
        \<and> sublist ''may be expired'' s'"
  have m1: "CHR ''m'' \<notin> set ''ACME storage file not found at ''" by simp
  have m2: "CHR ''m'' \<notin> set ''Failed to read ACME storage: ''" by simp
  have m3: "\<not> sublist ''may be expired'' ''No DNS resolver certificates found in ACME storage''"
    by (rule no_m_no_expired) simp
  have m4: "\<not> sublist ''may be expired'' ''No certificates found in DNS resolver storage''"
    by (rule no_m_no_expired) simp
  show "sublist ''may be expired'' path
        \<or> (\<exists>e. file = LoadFails e \<and> sublist ''may be expired'' e)
        \<or> (\<exists>d \<in> set domains. sublist ''may be expired'' d)"
  proof (cases "file")
    case NoFile
    with h have "sublist ''may be expired'' (''ACME storage file not found at '' @ path)"
      by (auto simp: check_certificates_exist_and_valid_def)
    then have "sublist ''may be expired'' path"
      by (rule sublist_after_prefix [OF m1])
    then show ?thesis by simp
  next
    case (LoadFails e)
    with h have "sublist ''may be expired'' (''Failed to read ACME storage: '' @ e)"
      by (auto simp: check_certificates_exist_and_valid_def)
    then have "sublist ''may be expired'' e"
      by (rule sublist_after_prefix [OF m2])
    with LoadFails show ?thesis by simp
  next
    case (Loaded acme_data)
    with h have r: "check_certificates_exist_and_valid path (Loaded acme_data) domains = Inr (b', s')"
      and e: "sublist ''may be expired'' s'"
      by simp_all
    from check_status_cases [OF r] e m3 m4 obtain outs where
      "s' = join ''; '' outs"
      "list_all2 (\<lambda>d m. m = ''Certificate found for '' @ d
                          \<or> m = ''No certificate found for '' @ d) domains outs"
      by blast
    with e have "\<exists>d \<in> set domains. sublist ''may be expired'' d"
      using expired_in_messages by blast
    then show ?thesis by simp
  qed
qed

theorem found_is_valid_counterexample:
  "check_certificates_exist_and_valid ''acme.json''
     (Loaded (JObj (example_store [example_cert ''example.com''])))
     [''may be expired''] =
     Inr (False, ''No certificate found for may be expired'')
   \<and> sublist ''may be expired'' ''No certificate found for may be expired''"
proof -
  have "sublist ''may be expired'' (''No certificate found for '' @ ''may be expired'' @ [])"
    by (rule sublist_appendI)
  then show ?thesis
    by (simp add: example_store_def example_cert_def main_label_def
        check_certificates_exist_and_valid_def)
qed

theorem found_is_valid_witness:
  "cert_loop ''example.com'' [example_cert ''example.com''] (False, False, []) =
     Inr (True, True, [''Certificate found for example.com''])
   \<and> domain_loop (JArr [example_cert ''example.com'']) [''example.com'', ''other.org''] (True, []) =
       Inr (False, [''Certificate found for example.com'', ''No certificate found for other.org''])
   \<and> check_certificates_exist_and_valid ''acme.json''
        (Loaded (JObj (example_store [example_cert ''example.com''])))
        [''may be expired''] =
       Inr (False, ''No certificate found for may be expired'')
   \<and> sublist ''may be expired'' ''No certificate found for may be expired''
   \<and> (\<exists>d \<in> set [''may be expired'']. sublist ''may be expired'' d)"
proof -
  have a: "cert_loop ''example.com'' [example_cert ''example.com''] (False, False, []) =
     Inr (True, True, [''Certificate found for example.com''])"
    by (simp add: example_cert_def main_label_def)
  have b: "domain_loop (JArr [example_cert ''example.com'']) [''example.com'', ''other.org''] (True, []) =
       Inr (False, [''Certificate found for example.com'', ''No certificate found for other.org''])"
    by (simp add: example_cert_def main_label_def)
  have c: "check_certificates_exist_and_valid ''acme.json''
        (Loaded (JObj (example_store [example_cert ''example.com''])))
        [''may be expired''] =
       Inr (False, ''No certificate found for may be expired'')"
    by (simp add: example_store_def example_cert_def main_label_def
        check_certificates_exist_and_valid_def)
  have s: "sublist ''may be expired'' ''No certificate found for may be expired''"
    using sublist_appendI [of "''may be expired''" "''No certificate found for ''" "[]"]
    by simp
  have p: "\<not> sublist ''may be expired'' ''acme.json''"
    by (simp add: sublist_code)
  note t = found_is_valid [of "''example.com''" "[example_cert ''example.com'']" "[]" True True
      "[''Certificate found for example.com'']"
      "JArr [example_cert ''example.com'']" "[''example.com'', ''other.org'']" True "[]" False
      "[''Certificate found for example.com'', ''No certificate found for other.org'']"
      "''acme.json''" "JObj (example_store [example_cert ''example.com''])"
      "[''may be expired'']" False
      "''No certificate found for may be expired''"
      "Loaded (JObj (example_store [example_cert ''example.com'']))" False
      "''No certificate found for may be expired''"]
  have "\<exists>d \<in> set [''may be expired'']. sublist ''may be expired'' d"
    using t a b c s p by blast
  with a b c s show ?thesis by blast
qed

section \<open>Claims on the run\<close>

text \<open>
  Claim C1. When the value of \<open>LE_CHALLENGE\<close> is not \<open>dns\<close>, or the value of
  \<open>LE_DNS_PROVIDER\<close> is not \<open>cloudflare\<close>, the run ends with the verdict Skip and exit code
  0; it calls neither the certificate store check nor the credential check nor the
  probe, and requests no URL. The store, the provider and every other value of the
  configuration are arbitrary, and replacing the store and the provider changes
  nothing of the run.
\<close>

theorem main_skips_when_not_applicable:
  assumes "get_env_value (os_environ w) ''LE_CHALLENGE'' (fst (load_env_file (args_env_file w))) \<noteq> ''dns''
           \<or> get_env_value (os_environ w) ''LE_DNS_PROVIDER'' (fst (load_env_file (args_env_file w)))
               \<noteq> ''cloudflare''"
  shows "snd (main w) = Exit Skipped 0
       \<and> Invoke CheckCertificates \<notin> set (fst (main w))
       \<and> Invoke ValidateCredentials \<notin> set (fst (main w))
       \<and> Invoke TestApiConnectivity \<notin> set (fst (main w))
       \<and> (\<forall>url. Request url \<notin> set (fst (main w)))
       \<and> main (w\<lparr>args_acme_storage := path, acme_storage_file := file, provider := net\<rparr>) = main w"
proof -
  obtain m where m: "main w =
           (Invoke LoadEnvFile # map (\<lambda>(l, m). Print l m) (snd (load_env_file (args_env_file w)))
              @ [Print INFO m],
            Exit Skipped 0)"
    using main_skip [OF assms] by blast
  have same: "main (w\<lparr>args_acme_storage := path, acme_storage_file := file, provider := net\<rparr>) = main w"
    using assms unfolding main_def by (auto simp: split_def Let_def)
  show ?thesis
    unfolding same unfolding m by auto
qed

theorem main_skips_when_not_applicable_witness:
  "get_env_value (os_environ (example_world [''LE_CHALLENGE=http''] NoFile (example_provider [])))
     ''LE_CHALLENGE''
     (fst (load_env_file (args_env_file
        (example_world [''LE_CHALLENGE=http''] NoFile (example_provider []))))) = ''http''
   \<and> snd (main (example_world [''LE_CHALLENGE=http''] NoFile (example_provider []))) = Exit Skipped 0
   \<and> get_env_value (os_environ (example_world [''LE_DNS_PROVIDER=route53''] NoFile (example_provider [])))
     ''LE_DNS_PROVIDER''
     (fst (load_env_file (args_env_file
        (example_world [''LE_DNS_PROVIDER=route53''] NoFile (example_provider []))))) = ''route53''
   \<and> snd (main (example_world [''LE_DNS_PROVIDER=route53''] NoFile (example_provider []))) = Exit Skipped 0"
proof -
  have a: "get_env_value (os_environ (example_world [''LE_CHALLENGE=http''] NoFile (example_provider [])))
     ''LE_CHALLENGE''
     (fst (load_env_file (args_env_file
        (example_world [''LE_CHALLENGE=http''] NoFile (example_provider []))))) = ''http''"
    by (simp add: example_world_lines example_world_fields example_lines_parsed get_env_value_def)
  have b: "get_env_value (os_environ (example_world [''LE_DNS_PROVIDER=route53''] NoFile (example_provider [])))
     ''LE_DNS_PROVIDER''
     (fst (load_env_file (args_env_file
        (example_world [''LE_DNS_PROVIDER=route53''] NoFile (example_provider []))))) = ''route53''"
    by (simp add: example_world_lines example_world_fields example_lines_parsed get_env_value_def)
  have "snd (main (example_world [''LE_CHALLENGE=http''] NoFile (example_provider []))) = Exit Skipped 0"
    using main_skips_when_not_applicable
      [of "example_world [''LE_CHALLENGE=http''] NoFile (example_provider [])"] a
    by simp
  moreover
  have "snd (main (example_world [''LE_DNS_PROVIDER=route53''] NoFile (example_provider []))) =
          Exit Skipped 0"
    using main_skips_when_not_applicable
      [of "example_world [''LE_DNS_PROVIDER=route53''] NoFile (example_provider [])"] b
    by simp
  ultimately show ?thesis
    using a b by blast
qed

text \<open>
  Claim C2. When the value of \<open>LE_CHALLENGE\<close> is \<open>dns\<close>, the value of \<open>LE_DNS_PROVIDER\<close> is
  \<open>cloudflare\<close>, the value of \<open>DOMAIN\<close> is neither empty nor the placeholder, and the
  certificate store check returns true for the requested domains (the domain and, when
  \<open>SUBDOMAIN\<close> is set, the subdomain joined to the domain by a dot), the run ends with the
  verdict Pass and exit code 0; it calls neither the credential check nor the probe, and
  requests no URL, whatever the provider would answer.
\<close>

theorem main_passes_on_valid_certificates:
  assumes "get_env_value (os_environ w) ''LE_CHALLENGE'' (fst (load_env_file (args_env_file w))) = ''dns''"
    and "get_env_value (os_environ w) ''LE_DNS_PROVIDER'' (fst (load_env_file (args_env_file w)))
           = ''cloudflare''"
    and "get_env_value (os_environ w) ''DOMAIN'' (fst (load_env_file (args_env_file w))) = domain"
    and "domain \<noteq> []" "domain \<noteq> ''paste-domain-here''"
    and "get_env_value (os_environ w) ''SUBDOMAIN'' (fst (load_env_file (args_env_file w))) = subdomain"
    and "check_certificates_exist_and_valid (args_acme_storage w) (acme_storage_file w)
           ([domain] @ (if subdomain \<noteq> [] then [subdomain @ ''.'' @ domain] else [])) =
         Inr (True, cert_status)"
  shows "snd (main w) = Exit Passed_CertsValid 0
       \<and> Invoke ValidateCredentials \<notin> set (fst (main w))
       \<and> Invoke TestApiConnectivity \<notin> set (fst (main w))
       \<and> (\<forall>url. Request url \<notin> set (fst (main w)))
       \<and> main (w\<lparr>provider := net\<rparr>) = main w"
proof -
  have same: "main (w\<lparr>provider := net\<rparr>) = main w"
    using main_certs_valid [OF assms] main_certs_valid [of "w\<lparr>provider := net\<rparr>", OF _ _ _ assms(4,5)] assms
    by simp
  show ?thesis
    unfolding same unfolding main_certs_valid [OF assms] by auto
qed

theorem main_passes_on_valid_certificates_witness:
  "check_certificates_exist_and_valid ''acme.json''
      (Loaded (JObj (example_store [example_cert ''example.com''])))
      ([''example.com''] @ (if '''' \<noteq> [] then ['''' @ ''.'' @ ''example.com''] else [])) =
     Inr (True, ''Certificate found for example.com'')
   \<and> snd (main (example_world [] (Loaded (JObj (example_store [example_cert ''example.com''])))
              (example_provider []))) = Exit Passed_CertsValid 0
   \<and> check_certificates_exist_and_valid ''acme.json''
      (Loaded (JObj (example_store [example_cert ''*.example.com'', example_cert ''app.example.com''])))
      ([''example.com''] @ (if ''app'' \<noteq> [] then [''app'' @ ''.'' @ ''example.com''] else [])) =
     Inr (True, ''Certificate found for example.com; Certificate found for app.example.com'')
   \<and> snd (main (example_world [''SUBDOMAIN=app'']
              (Loaded (JObj (example_store
                 [example_cert ''*.example.com'', example_cert ''app.example.com''])))
              (example_provider []))) = Exit Passed_CertsValid 0"
proof -
  let ?w1 = "example_world [] (Loaded (JObj (example_store [example_cert ''example.com''])))
              (example_provider [])"
  let ?w2 = "example_world [''SUBDOMAIN=app'']
              (Loaded (JObj (example_store
                 [example_cert ''*.example.com'', example_cert ''app.example.com''])))
              (example_provider [])"
  have c1: "check_certificates_exist_and_valid ''acme.json''
      (Loaded (JObj (example_store [example_cert ''example.com''])))
      ([''example.com''] @ (if '''' \<noteq> [] then ['''' @ ''.'' @ ''example.com''] else [])) =
     Inr (True, ''Certificate found for example.com'')"
    by (simp add: example_store_def example_cert_def main_label_def
        check_certificates_exist_and_valid_def)
  have c2: "check_certificates_exist_and_valid ''acme.json''
      (Loaded (JObj (example_store [example_cert ''*.example.com'', example_cert ''app.example.com''])))
      ([''example.com''] @ (if ''app'' \<noteq> [] then [''app'' @ ''.'' @ ''example.com''] else [])) =
     Inr (True, ''Certificate found for example.com; Certificate found for app.example.com'')"
    by (simp add: example_store_def example_cert_def main_label_def
        check_certificates_exist_and_valid_def)
  have g1: "get_env_value (os_environ ?w1) ''LE_CHALLENGE'' (fst (load_env_file (args_env_file ?w1))) = ''dns''"
    "get_env_value (os_environ ?w1) ''LE_DNS_PROVIDER'' (fst (load_env_file (args_env_file ?w1))) = ''cloudflare''"
    "get_env_value (os_environ ?w1) ''DOMAIN'' (fst (load_env_file (args_env_file ?w1))) = ''example.com''"
    "get_env_value (os_environ ?w1) ''SUBDOMAIN'' (fst (load_env_file (args_env_file ?w1))) = ''''"
    by (simp_all add: example_world_lines example_world_fields get_env_value_def)
  have g2: "get_env_value (os_environ ?w2) ''LE_CHALLENGE'' (fst (load_env_file (args_env_file ?w2))) = ''dns''"
    "get_env_value (os_environ ?w2) ''LE_DNS_PROVIDER'' (fst (load_env_file (args_env_file ?w2))) = ''cloudflare''"
    "get_env_value (os_environ ?w2) ''DOMAIN'' (fst (load_env_file (args_env_file ?w2))) = ''example.com''"
    "get_env_value (os_environ ?w2) ''SUBDOMAIN'' (fst (load_env_file (args_env_file ?w2))) = ''app''"
    by (simp_all add: example_world_lines example_world_fields example_lines_parsed get_env_value_def)
  have d: "''example.com'' \<noteq> []" "''example.com'' \<noteq> ''paste-domain-here''"
    by simp_all
  have r1: "snd (main ?w1) = Exit Passed_CertsValid 0"
    using main_passes_on_valid_certificates [of ?w1, OF g1(1) g1(2) g1(3) d g1(4)] c1
    by (simp add: example_world_fields)
  have r2: "snd (main ?w2) = Exit Passed_CertsValid 0"
    using main_passes_on_valid_certificates [of ?w2, OF g2(1) g2(2) g2(3) d g2(4)] c2
    by (simp add: example_world_fields)
  show ?thesis
    using c1 c2 r1 r2 by blast
qed

end
